theory Spec2Isabelle
  imports Complex_Main
begin

section \<open>Python values\<close>

text \<open>
  A Python float is modelled by the rational it denotes, or one of the three non-finite
  values. The program only compares floats with \<open>0.0\<close> and \<open>1.0\<close> and truncates them
  with \<open>int()\<close>; both are exact on the denoted number.
\<close>

datatype pyfloat = Finite rat | PosInf | NegInf | NaN

text \<open>
  What \<open>json.loads\<close> returns. A dict is an association list read with \<open>map_of\<close>;
  strings are ASCII text.
\<close>

datatype json =
    JNull
  | JBool bool
  | JInt int
  | JFloat pyfloat
  | JStr string
  | JArr "json list"
  | JObj "(string \<times> json) list"

type_synonym pydict = "(string \<times> json) list"

text \<open>The exceptions the program can meet; every \<open>except Exception\<close> catches all of them.\<close>

datatype error =
    TransportError
  | JSONDecodeError
  | ApiError string
  | AttributeError
  | TypeError
  | KeyError
  | ValueError
  | OverflowError
  | ValidationError
  | CollaboratorError
  | DatabaseError

text \<open>\<open>d.get(k, default)\<close>\<close>

definition dict_get :: "pydict \<Rightarrow> string \<Rightarrow> json \<Rightarrow> json" where
  "dict_get d k dflt = (case map_of d k of None \<Rightarrow> dflt | Some v \<Rightarrow> v)"

text \<open>Truth value of a Python object, as \<open>if x\<close> and \<open>not x\<close> test it.\<close>

fun truthy :: "json \<Rightarrow> bool" where
  "truthy JNull = False"
| "truthy (JBool b) = b"
| "truthy (JInt i) = (i \<noteq> 0)"
| "truthy (JFloat f) = (f \<noteq> Finite 0)"
| "truthy (JStr s) = (s \<noteq> [])"
| "truthy (JArr xs) = (xs \<noteq> [])"
| "truthy (JObj d) = (d \<noteq> [])"

section \<open>Strings\<close>

text \<open>\<open>str.isspace\<close> and the regular expression class \<open>\s\<close>, on ASCII.\<close>

definition isspace :: "char \<Rightarrow> bool" where
  "isspace c = (c \<in> set [CHR '' '', CHR 0x09, CHR 0x0A, CHR 0x0B, CHR 0x0C, CHR 0x0D,
                          CHR 0x1C, CHR 0x1D, CHR 0x1E, CHR 0x1F])"

definition lstrip :: "string \<Rightarrow> string" where
  "lstrip s = dropWhile isspace s"

definition rstrip :: "string \<Rightarrow> string" where
  "rstrip s = rev (dropWhile isspace (rev s))"

text \<open>\<open>s.strip()\<close>\<close>

definition strip :: "string \<Rightarrow> string" where
  "strip s = rstrip (lstrip s)"

text \<open>
  \<open>split_on pat s\<close> finds the first occurrence of \<open>pat\<close> in \<open>s\<close> and returns the text
  before it and the text after it.
\<close>

fun split_on :: "string \<Rightarrow> string \<Rightarrow> (string \<times> string) option" where
  "split_on pat [] = (if pat = [] then Some ([], []) else None)"
| "split_on pat (c # cs) =
     (if take (length pat) (c # cs) = pat then Some ([], drop (length pat) (c # cs))
      else (case split_on pat cs of
              None \<Rightarrow> None
            | Some (before, after) \<Rightarrow> Some (c # before, after)))"

text \<open>
  \<^verbatim>\<open>
  def _extract_json_from_markdown(self, text: str) -> str:
      match = re.search(r"```json\s*(.*?)\s*```", text, re.DOTALL)
      if match:
          return match.group(1).strip()
      return text
  \<close>
  The search succeeds exactly when the first \<open>```json\<close> is followed, after its
  whitespace, by a \<open>```\<close>; the lazy group then ends before the whitespace that precedes
  the first such \<open>```\<close>.
\<close>

definition extract_json_from_markdown :: "string \<Rightarrow> string" where
  "extract_json_from_markdown text =
     (case split_on ''```json'' text of
        None \<Rightarrow> text
      | Some (_, rest) \<Rightarrow>
          (case split_on ''```'' (lstrip rest) of
             None \<Rightarrow> text
           | Some (group1, _) \<Rightarrow> strip (rstrip group1)))"

section \<open>models.py\<close>

datatype IntentType = SEARCH_FLIGHT | SEARCH_HOTEL | BOOK_TRIP | GENERAL_INQUIRY | GREETING

text \<open>\<open>member.value\<close>\<close>

fun intent_value :: "IntentType \<Rightarrow> string" where
  "intent_value SEARCH_FLIGHT = ''search_flight''"
| "intent_value SEARCH_HOTEL = ''search_hotel''"
| "intent_value BOOK_TRIP = ''book_trip''"
| "intent_value GENERAL_INQUIRY = ''general_inquiry''"
| "intent_value GREETING = ''greeting''"

text \<open>\<open>IntentType(x)\<close>: the member whose value is \<open>x\<close>, or \<open>ValueError\<close>.\<close>

definition IntentType_of :: "json \<Rightarrow> error + IntentType" where
  "IntentType_of x =
     (case x of
        JStr s \<Rightarrow>
          (if s = ''search_flight'' then Inr SEARCH_FLIGHT
           else if s = ''search_hotel'' then Inr SEARCH_HOTEL
           else if s = ''book_trip'' then Inr BOOK_TRIP
           else if s = ''general_inquiry'' then Inr GENERAL_INQUIRY
           else if s = ''greeting'' then Inr GREETING
           else Inl ValueError)
      | _ \<Rightarrow> Inl ValueError)"

text \<open>
  The turn state is an unchecked \<open>TypedDict\<close>: its \<open>intent\<close> slot can hold a member of
  \<open>IntentType\<close>, \<open>None\<close> (\<open>Plain JNull\<close>) or any other value.
\<close>

datatype pyvalue = Member IntentType | Plain json

text \<open>
  \<open>x == IntentType.M\<close>. \<open>IntentType\<close> mixes in \<open>str\<close>, so a plain string equal to the
  member's value compares equal to the member.
\<close>

fun eq_intent :: "pyvalue \<Rightarrow> IntentType \<Rightarrow> bool" where
  "eq_intent (Member m) M = (m = M)"
| "eq_intent (Plain (JStr s)) M = (s = intent_value M)"
| "eq_intent (Plain _) M = False"

record FlightResult =
  fl_flight_id :: string
  fl_airline :: string
  fl_flight_number :: string
  fl_origin :: string
  fl_destination :: string
  fl_departure_time :: string
  fl_arrival_time :: string
  fl_duration :: string
  fl_price :: pyfloat
  fl_currency :: string
  fl_available_seats :: int

record HotelResult =
  ho_hotel_id :: string
  ho_name :: string
  ho_location :: string
  ho_rating :: pyfloat
  ho_price_per_night :: pyfloat
  ho_currency :: string
  ho_amenities :: "string list"
  ho_available_rooms :: int

record BookingResult =
  bk_booking_id :: string
  bk_booking_type :: string
  bk_status :: string
  bk_confirmation_number :: string
  bk_total_price :: pyfloat
  bk_currency :: string
  bk_booking_details :: pydict

text \<open>
  An element of \<open>api_results\<close>: the \<open>.dict()\<close> of a result model. Validating it again
  as \<open>Union[FlightResult, HotelResult, BookingResult]\<close> gives the model back.
\<close>

datatype api_result = Flight FlightResult | Hotel HotelResult | Booking BookingResult

record FlightSearchRequest =
  origin :: string
  destination :: string
  departure_date :: string
  return_date :: "string option"
  passengers :: int
  class_type :: string

record HotelSearchRequest =
  location :: string
  check_in :: string
  check_out :: string
  guests :: int
  rooms :: int

record ExtractedEntities =
  ee_intent :: IntentType
  ee_confidence :: pyfloat
  ee_entities :: pydict

record UIElement =
  ui_type :: string
  ui_text :: string
  ui_action :: string
  ui_data :: "pydict option"

text \<open>\<open>AssistantResponse\<close>; its \<open>timestamp\<close> is the wall clock and is left out.\<close>

record AssistantResponse =
  ar_message :: string
  ar_intent :: "IntentType option"
  ar_entities :: "pydict option"
  ar_results :: "api_result list option"
  ar_ui_elements :: "UIElement list option"
  ar_session_id :: string

section \<open>The world outside the repository\<close>

text \<open>\<open>FlightSearchRequest\<close> and the other requests the collaborators are called with.\<close>

datatype api_call =
    SearchFlights FlightSearchRequest
  | SearchHotels HotelSearchRequest
  | CreateBooking json json pydict

text \<open>
  What a completion request is built from. The message texts themselves are functions of
  these data, so a service that depends on the data covers every service that depends on
  the texts.
\<close>

datatype completion_request =
    ExtractRequest "string list" string
  | GenerateRequest string string pydict "api_result list" "string list"

record MessageCreate =
  mc_session_id :: string
  mc_user_id :: "string option"
  mc_message_type :: string
  mc_content :: string
  mc_metadata :: "pydict option"

datatype db_op =
    QueryHistory string
  | InsertMessage MessageCreate
  | UpsertSession string

text \<open>
  The collaborators and the library functions the code calls, none of which is part of
  the repository: the HTTP endpoint of the completion service (the body of a successful
  reply, or the failure of the post or of \<open>raise_for_status\<close>), \<open>json.loads\<close>, the
  string case of \<open>int()\<close>, pydantic's lax conversion of a string or a boolean to a
  float, the three search and booking services, and whether a database operation fails.
\<close>

record env =
  http_post :: "completion_request \<Rightarrow> error + string"
  json_loads :: "string \<Rightarrow> error + json"
  int_of_str :: "string \<Rightarrow> int option"
  lax_float :: "json \<Rightarrow> pyfloat option"
  search_flights_api :: "FlightSearchRequest \<Rightarrow> error + FlightResult list"
  search_hotels_api :: "HotelSearchRequest \<Rightarrow> error + HotelResult list"
  create_booking_api :: "json \<Rightarrow> json \<Rightarrow> pydict \<Rightarrow> error + BookingResult"
  db_fails :: "db_op \<Rightarrow> bool"

section \<open>Field validation (pydantic 2, lax mode)\<close>

text \<open>IEEE comparison \<open>a <= b\<close>: false as soon as one side is NaN.\<close>

fun float_le :: "pyfloat \<Rightarrow> pyfloat \<Rightarrow> bool" where
  "float_le NaN _ = False"
| "float_le _ NaN = False"
| "float_le NegInf _ = True"
| "float_le _ PosInf = True"
| "float_le (Finite a) (Finite b) = (a \<le> b)"
| "float_le _ _ = False"

text \<open>A \<open>float\<close> field.\<close>

definition validate_float :: "env \<Rightarrow> json \<Rightarrow> pyfloat option" where
  "validate_float e v =
     (case v of
        JFloat f \<Rightarrow> Some f
      | JInt i \<Rightarrow> Some (Finite (of_int i))
      | JStr s \<Rightarrow> lax_float e v
      | JBool b \<Rightarrow> lax_float e v
      | _ \<Rightarrow> None)"

text \<open>A \<open>str\<close> field and an \<open>Optional[str]\<close> field.\<close>

definition validate_str :: "json \<Rightarrow> string option" where
  "validate_str v = (case v of JStr s \<Rightarrow> Some s | _ \<Rightarrow> None)"

definition validate_opt_str :: "json \<Rightarrow> string option option" where
  "validate_opt_str v = (case v of JNull \<Rightarrow> Some None | JStr s \<Rightarrow> Some (Some s) | _ \<Rightarrow> None)"

text \<open>A \<open>Dict[str, Any]\<close> field and an \<open>Optional[Dict[str, Any]]\<close> field.\<close>

definition validate_dict :: "json \<Rightarrow> pydict option" where
  "validate_dict v = (case v of JObj d \<Rightarrow> Some d | _ \<Rightarrow> None)"

definition validate_opt_dict :: "json \<Rightarrow> pydict option option" where
  "validate_opt_dict v = (case v of JNull \<Rightarrow> Some None | JObj d \<Rightarrow> Some (Some d) | _ \<Rightarrow> None)"

text \<open>
  \<^verbatim>\<open>
  class ExtractedEntities(BaseModel):
      intent: IntentType
      confidence: float = Field(..., ge=0.0, le=1.0)
      entities: Dict[str, Any] = Field(default_factory=dict)
  \<close>
  called with all three fields given.
\<close>

definition new_ExtractedEntities ::
  "env \<Rightarrow> IntentType \<Rightarrow> json \<Rightarrow> json \<Rightarrow> error + ExtractedEntities" where
  "new_ExtractedEntities e i c ents =
     (case (validate_float e c, validate_dict ents) of
        (Some f, Some d) \<Rightarrow>
          (if float_le (Finite 0) f \<and> float_le f (Finite 1)
           then Inr \<lparr>ee_intent = i, ee_confidence = f, ee_entities = d\<rparr>
           else Inl ValidationError)
      | _ \<Rightarrow> Inl ValidationError)"

text \<open>
  \<^verbatim>\<open>
  class UIElement(BaseModel):
      type: str = Field(...)
      text: str = Field(...)
      action: str = Field(...)
      data: Optional[Dict[str, Any]] = Field(None)
  \<close>
  \<open>UIElement(**element)\<close>: \<open>element\<close> has to be a mapping; keys that are no field are
  ignored.
\<close>

definition new_UIElement :: "json \<Rightarrow> error + UIElement" where
  "new_UIElement element =
     (case element of
        JObj d \<Rightarrow>
          (case (map_option validate_str (map_of d ''type''),
                 map_option validate_str (map_of d ''text''),
                 map_option validate_str (map_of d ''action''),
                 validate_opt_dict (dict_get d ''data'' JNull)) of
             (Some (Some ty), Some (Some tx), Some (Some ac), Some da) \<Rightarrow>
               Inr \<lparr>ui_type = ty, ui_text = tx, ui_action = ac, ui_data = da\<rparr>
           | _ \<Rightarrow> Inl ValidationError)
      | _ \<Rightarrow> Inl TypeError)"

text \<open>
  \<^verbatim>\<open>
  class FlightSearchRequest(BaseModel):
      origin: str = Field(...)
      destination: str = Field(...)
      departure_date: str = Field(...)
      return_date: Optional[str] = Field(None)
      passengers: int = Field(1, ge=1, le=9)
      class_type: str = Field("economy")
  \<close>
  called with all six fields given, \<open>passengers\<close> already an \<open>int\<close>.
\<close>

definition new_FlightSearchRequest ::
  "json \<Rightarrow> json \<Rightarrow> json \<Rightarrow> json \<Rightarrow> int \<Rightarrow> json \<Rightarrow> error + FlightSearchRequest" where
  "new_FlightSearchRequest o_v d_v dep_v ret_v n c_v =
     (case (validate_str o_v, validate_str d_v, validate_str dep_v,
            validate_opt_str ret_v, validate_str c_v) of
        (Some og, Some ds, Some dep, Some ret, Some cl) \<Rightarrow>
          (if 1 \<le> n \<and> n \<le> 9
           then Inr \<lparr>origin = og, destination = ds, departure_date = dep,
                     return_date = ret, passengers = n, class_type = cl\<rparr>
           else Inl ValidationError)
      | _ \<Rightarrow> Inl ValidationError)"

text \<open>
  \<^verbatim>\<open>
  class HotelSearchRequest(BaseModel):
      location: str = Field(...)
      check_in: str = Field(...)
      check_out: str = Field(...)
      guests: int = Field(1, ge=1, le=10)
      rooms: int = Field(1, ge=1, le=5)
  \<close>
\<close>

definition new_HotelSearchRequest ::
  "json \<Rightarrow> json \<Rightarrow> json \<Rightarrow> int \<Rightarrow> int \<Rightarrow> error + HotelSearchRequest" where
  "new_HotelSearchRequest l_v in_v out_v g r =
     (case (validate_str l_v, validate_str in_v, validate_str out_v) of
        (Some lc, Some ci, Some co) \<Rightarrow>
          (if 1 \<le> g \<and> g \<le> 10 \<and> 1 \<le> r \<and> r \<le> 5
           then Inr \<lparr>location = lc, check_in = ci, check_out = co, guests = g, rooms = r\<rparr>
           else Inl ValidationError)
      | _ \<Rightarrow> Inl ValidationError)"

text \<open>
  The builtin \<open>int(x)\<close>: an \<open>int\<close> is itself, a \<open>bool\<close> is 0 or 1, a float is truncated
  towards zero (\<open>ValueError\<close> on NaN, \<open>OverflowError\<close> on an infinity), a string is
  parsed, and \<open>None\<close>, a list and a dict raise \<open>TypeError\<close>.
\<close>

definition py_int :: "env \<Rightarrow> json \<Rightarrow> error + int" where
  "py_int e v =
     (case v of
        JInt i \<Rightarrow> Inr i
      | JBool b \<Rightarrow> Inr (if b then 1 else 0)
      | JFloat f \<Rightarrow>
          (case f of
             Finite q \<Rightarrow> Inr (if q < 0 then - \<lfloor>- q\<rfloor> else \<lfloor>q\<rfloor>)
           | NaN \<Rightarrow> Inl ValueError
           | _ \<Rightarrow> Inl OverflowError)
      | JStr s \<Rightarrow> (case int_of_str e s of None \<Rightarrow> Inl ValueError | Some i \<Rightarrow> Inr i)
      | _ \<Rightarrow> Inl TypeError)"

section \<open>database.py\<close>

text \<open>
  The two tables. \<open>datetime.utcnow\<close> is a logical clock that every commit advances, so
  that the order of the timestamps is the order of the commits.
\<close>

record ConversationMessage =
  cm_id :: nat
  cm_session_id :: string
  cm_user_id :: "string option"
  cm_message_type :: string
  cm_content :: string
  cm_extra_metadata :: "pydict option"
  cm_timestamp :: nat

record ConversationSession =
  cs_session_id :: string
  cs_user_id :: "string option"
  cs_created_at :: nat
  cs_last_activity :: nat
  cs_context :: "pydict option"

record database =
  conversation_messages :: "ConversationMessage list"
  conversation_sessions :: "ConversationSession list"
  clock :: nat

text \<open>
  \<^verbatim>\<open>
  def create_message(self, db, message):
      db_message = ConversationMessage(session_id=message.session_id, ...)
      db.add(db_message)
      db.commit()
      db.refresh(db_message)
      return db_message
  \<close>
  A failing operation raises and commits nothing.
\<close>

definition create_message :: "env \<Rightarrow> database \<Rightarrow> MessageCreate \<Rightarrow> error + database" where
  "create_message e db message =
     (if db_fails e (InsertMessage message) then Inl DatabaseError
      else Inr (db\<lparr>conversation_messages := conversation_messages db @
                       [\<lparr>cm_id = Suc (length (conversation_messages db)),
                         cm_session_id = mc_session_id message,
                         cm_user_id = mc_user_id message,
                         cm_message_type = mc_message_type message,
                         cm_content = mc_content message,
                         cm_extra_metadata = mc_metadata message,
                         cm_timestamp = clock db\<rparr>],
                    clock := Suc (clock db)\<rparr>))"

text \<open>
  \<^verbatim>\<open>
  def get_conversation_history(self, db, session_id, limit=None):
      query = db.query(ConversationMessage).filter(
          ConversationMessage.session_id == session_id
      ).order_by(ConversationMessage.timestamp.desc())
      if limit:
          query = query.limit(limit)
      return query.all()
  \<close>
\<close>

definition get_conversation_history ::
  "env \<Rightarrow> database \<Rightarrow> string \<Rightarrow> nat option \<Rightarrow> error + ConversationMessage list" where
  "get_conversation_history e db sid limit =
     (if db_fails e (QueryHistory sid) then Inl DatabaseError
      else (let query = rev (filter (\<lambda>m. cm_session_id m = sid) (conversation_messages db))
            in Inr (case limit of
                      None \<Rightarrow> query
                    | Some n \<Rightarrow> (if n \<noteq> 0 then take n query else query))))"

text \<open>The first row that satisfies \<open>P\<close> is replaced by its image under \<open>f\<close>.\<close>

fun update_first :: "('a \<Rightarrow> bool) \<Rightarrow> ('a \<Rightarrow> 'a) \<Rightarrow> 'a list \<Rightarrow> 'a list" where
  "update_first P f [] = []"
| "update_first P f (x # xs) = (if P x then f x # xs else x # update_first P f xs)"

text \<open>
  \<^verbatim>\<open>
  def create_or_update_session(self, db, session_id, user_id=None, context=None):
      session = db.query(ConversationSession).filter(
          ConversationSession.session_id == session_id).first()
      if session:
          session.last_activity = datetime.utcnow()
          if context:
              session.context = context
      else:
          session = ConversationSession(session_id=session_id, user_id=user_id,
                                        context=context)
          db.add(session)
      db.commit()
      db.refresh(session)
      return session
  \<close>
\<close>

definition create_or_update_session ::
  "env \<Rightarrow> database \<Rightarrow> string \<Rightarrow> string option \<Rightarrow> pydict option \<Rightarrow> error + database" where
  "create_or_update_session e db sid uid context =
     (if db_fails e (UpsertSession sid) then Inl DatabaseError
      else (case find (\<lambda>s. cs_session_id s = sid) (conversation_sessions db) of
              Some session \<Rightarrow>
                Inr (db\<lparr>conversation_sessions :=
                           update_first (\<lambda>s. cs_session_id s = sid)
                             (\<lambda>s. (case context of
                                     None \<Rightarrow> s\<lparr>cs_last_activity := clock db\<rparr>
                                   | Some c \<Rightarrow>
                                       (if c \<noteq> []
                                        then s\<lparr>cs_last_activity := clock db, cs_context := Some c\<rparr>
                                        else s\<lparr>cs_last_activity := clock db\<rparr>)))
                             (conversation_sessions db),
                         clock := Suc (clock db)\<rparr>)
            | None \<Rightarrow>
                Inr (db\<lparr>conversation_sessions := conversation_sessions db @
                           [\<lparr>cs_session_id = sid, cs_user_id = uid,
                             cs_created_at = clock db, cs_last_activity = clock db,
                             cs_context = context\<rparr>],
                         clock := Suc (clock db)\<rparr>)))"

section \<open>deepseek\_client.py\<close>

text \<open>\<open>not s.strip()\<close>\<close>

definition blank :: "string \<Rightarrow> bool" where
  "blank s = (strip s = [])"

text \<open>
  \<^verbatim>\<open>
  async def _make_request(self, messages, temperature=0.7) -> str:
      try:
          response = await self.client.post(...)
          response.raise_for_status()
          raw_text = response.text
          result = json.loads(raw_text)
          choices = result.get("choices")
          if not choices or not isinstance(choices, list):
              raise Exception("Invalid response structure from DeepSeek API: Missing 'choices'")
          message_content = choices[0].get("message", {}).get("content")
          if message_content is None or not message_content.strip():
              raise Exception("Empty or missing message content from DeepSeek API")
          return message_content
      except Exception as e:
          raise
  \<close>
  \<open>.get\<close> exists on a dict only and \<open>.strip\<close> on a string only: on any other value
  the attribute access raises \<open>AttributeError\<close>.
\<close>

definition make_request :: "env \<Rightarrow> completion_request \<Rightarrow> error + string" where
  "make_request e messages =
     (case http_post e messages of
        Inl err \<Rightarrow> Inl err
      | Inr raw_text \<Rightarrow>
          (case json_loads e raw_text of
             Inl err \<Rightarrow> Inl err
           | Inr result \<Rightarrow>
               (case result of
                  JObj d \<Rightarrow>
                    (case dict_get d ''choices'' JNull of
                       JArr choices \<Rightarrow>
                         (case choices of
                            [] \<Rightarrow> Inl (ApiError ''Invalid response structure from DeepSeek API'')
                          | c0 # _ \<Rightarrow>
                              (case c0 of
                                 JObj cd \<Rightarrow>
                                   (case dict_get cd ''message'' (JObj []) of
                                      JObj md \<Rightarrow>
                                        (case dict_get md ''content'' JNull of
                                           JNull \<Rightarrow> Inl (ApiError ''Empty or missing message content from DeepSeek API'')
                                         | JStr message_content \<Rightarrow>
                                             (if blank message_content
                                              then Inl (ApiError ''Empty or missing message content from DeepSeek API'')
                                              else Inr message_content)
                                         | _ \<Rightarrow> Inl AttributeError)
                                    | _ \<Rightarrow> Inl AttributeError)
                               | _ \<Rightarrow> Inl AttributeError))
                     | _ \<Rightarrow> Inl (ApiError ''Invalid response structure from DeepSeek API''))
                | _ \<Rightarrow> Inl AttributeError)))"

text \<open>\<open>conversation_history[-3:]\<close>\<close>

definition last3 :: "'a list \<Rightarrow> 'a list" where
  "last3 xs = drop (length xs - 3) xs"

text \<open>
  The first four statements of both \<open>try\<close> blocks of the client:
  \<^verbatim>\<open>
  response = await self._make_request(messages, temperature=...)
  if not response.strip():
      raise Exception("Empty response content from DeepSeek")
  json_string = self._extract_json_from_markdown(response)
  parsed = json.loads(json_string)
  \<close>
\<close>

definition request_parsed :: "env \<Rightarrow> completion_request \<Rightarrow> error + json" where
  "request_parsed e messages =
     (case make_request e messages of
        Inl err \<Rightarrow> Inl err
      | Inr response \<Rightarrow>
          (if blank response then Inl (ApiError ''Empty response content from DeepSeek'')
           else json_loads e (extract_json_from_markdown response)))"

text \<open>
  The rest of the \<open>try\<close> block of \<open>extract_intent_and_entities\<close>:
  \<^verbatim>\<open>
  return ExtractedEntities(
      intent=IntentType(parsed["intent"]),
      confidence=parsed.get("confidence", 0.0),
      entities=parsed.get("entities", {})
  )
  \<close>
  \<open>parsed["intent"]\<close> raises \<open>KeyError\<close> on a dict without the key and \<open>TypeError\<close> on
  every value that is no dict.
\<close>

definition extract_try :: "env \<Rightarrow> completion_request \<Rightarrow> error + ExtractedEntities" where
  "extract_try e messages =
     (case request_parsed e messages of
        Inl err \<Rightarrow> Inl err
      | Inr parsed \<Rightarrow>
          (case parsed of
             JObj d \<Rightarrow>
               (case map_of d ''intent'' of
                  None \<Rightarrow> Inl KeyError
                | Some x \<Rightarrow>
                    (case IntentType_of x of
                       Inl err \<Rightarrow> Inl err
                     | Inr i \<Rightarrow>
                         new_ExtractedEntities e i
                           (dict_get d ''confidence'' (JFloat (Finite 0)))
                           (dict_get d ''entities'' (JObj []))))
           | _ \<Rightarrow> Inl TypeError))"

text \<open>
  \<^verbatim>\<open>
  async def extract_intent_and_entities(self, user_input, conversation_history=None):
      messages = [{"role": "system", "content": system_prompt}]
      if conversation_history:
          context = "\n".join(conversation_history[-3:])
          messages.append({"role": "user", "content": f"Previous context: {context}"})
      messages.append({"role": "user", "content": f"Extract intent and entities from: '{user_input}'"})
      try:
          ...
      except Exception as e:
          return ExtractedEntities(intent=IntentType.GENERAL_INQUIRY, confidence=0.5, entities={})
  \<close>
\<close>

definition fallback_entities :: ExtractedEntities where
  "fallback_entities =
     \<lparr>ee_intent = GENERAL_INQUIRY, ee_confidence = Finite (1 / 2), ee_entities = []\<rparr>"

definition extract_messages :: "string \<Rightarrow> string list \<Rightarrow> completion_request" where
  "extract_messages user_input_v history = ExtractRequest (last3 history) user_input_v"

definition client_extract_intent_and_entities ::
  "env \<Rightarrow> string \<Rightarrow> string list \<Rightarrow> ExtractedEntities" where
  "client_extract_intent_and_entities e user_input_v history =
     (case extract_try e (extract_messages user_input_v history) of
        Inr extracted \<Rightarrow> extracted
      | Inl err \<Rightarrow> fallback_entities)"

text \<open>
  \<^verbatim>\<open>
  for element in parsed["ui_elements"]:
      ui_elements.append(UIElement(**element))
  \<close>
\<close>

fun build_ui_elements :: "json list \<Rightarrow> error + UIElement list" where
  "build_ui_elements [] = Inr []"
| "build_ui_elements (element # rest) =
     (case new_UIElement element of
        Inl err \<Rightarrow> Inl err
      | Inr u \<Rightarrow>
          (case build_ui_elements rest of
             Inl err \<Rightarrow> Inl err
           | Inr us \<Rightarrow> Inr (u # us)))"

text \<open>
  The rest of the \<open>try\<close> block of \<open>generate_response\<close>:
  \<^verbatim>\<open>
  ui_elements = []
  if "ui_elements" in parsed and isinstance(parsed["ui_elements"], list):
      for element in parsed["ui_elements"]: ...
  return {"message": parsed.get("message", ""), "ui_elements": ui_elements}
  \<close>
  On a value that is no dict, the membership test, the subscript or \<open>.get\<close> raises.
\<close>

definition parsed_ui_elements :: "pydict \<Rightarrow> error + UIElement list" where
  "parsed_ui_elements d =
     (case map_of d ''ui_elements'' of
        Some (JArr elements) \<Rightarrow> build_ui_elements elements
      | _ \<Rightarrow> Inr [])"

definition generate_try ::
  "env \<Rightarrow> completion_request \<Rightarrow> error + (json \<times> UIElement list)" where
  "generate_try e messages =
     (case request_parsed e messages of
        Inl err \<Rightarrow> Inl err
      | Inr parsed \<Rightarrow>
          (case parsed of
             JObj d \<Rightarrow>
               (case parsed_ui_elements d of
                  Inl err \<Rightarrow> Inl err
                | Inr uis \<Rightarrow> Inr (dict_get d ''message'' (JStr []), uis))
           | JArr xs \<Rightarrow>
               (if JStr ''ui_elements'' \<in> set xs then Inl TypeError else Inl AttributeError)
           | JStr s \<Rightarrow>
               (if split_on ''ui_elements'' s \<noteq> None then Inl TypeError else Inl AttributeError)
           | _ \<Rightarrow> Inl TypeError))"

definition client_apology :: string where
  "client_apology =
     ''I apologize, but I'm having trouble processing your request right now. Please try again.''"

text \<open>
  \<^verbatim>\<open>
  async def generate_response(self, user_input, intent, entities, api_results=None,
                              conversation_history=None):
      context_parts = [f"User input: {user_input}", f"Detected intent: {intent.value}",
                       f"Extracted entities: {json.dumps(entities)}"]
      if api_results:
          context_parts.append(f"API results: {json.dumps(api_results)}")
      if conversation_history:
          context_parts.append(f"Recent conversation: {' | '.join(conversation_history[-3:])}")
      try:
          ...
      except Exception as e:
          return {"message": "I apologize, ... Please try again.", "ui_elements": []}
  \<close>
  \<open>intent.value\<close> is read before the \<open>try\<close>: on a value that is no member of
  \<open>IntentType\<close> the \<open>AttributeError\<close> leaves the function.
\<close>

definition generate_messages ::
  "string \<Rightarrow> IntentType \<Rightarrow> pydict \<Rightarrow> api_result list option \<Rightarrow> string list
     \<Rightarrow> completion_request" where
  "generate_messages user_input_v i entities_v api_results_v history =
     GenerateRequest user_input_v (intent_value i) entities_v
       (case api_results_v of None \<Rightarrow> [] | Some rs \<Rightarrow> rs) (last3 history)"

definition client_generate_response ::
  "env \<Rightarrow> string \<Rightarrow> pyvalue \<Rightarrow> pydict \<Rightarrow> api_result list option \<Rightarrow> string list
     \<Rightarrow> error + (json \<times> UIElement list)" where
  "client_generate_response e user_input_v intent_v entities_v api_results_v history =
     (case intent_v of
        Plain _ \<Rightarrow> Inl AttributeError
      | Member i \<Rightarrow>
          (case generate_try e
                  (generate_messages user_input_v i entities_v api_results_v history) of
             Inr response_data \<Rightarrow> Inr response_data
           | Inl err \<Rightarrow> Inr (JStr client_apology, [])))"

section \<open>langgraph\_workflow.py\<close>

text \<open>
  \<open>WorkflowState\<close>. The \<open>TypedDict\<close> is not checked when the program runs:
  \<open>intent\<close> holds whatever was stored, and \<open>response_message\<close> holds the value the
  completion put under \<open>message\<close>, which need not be a string.
\<close>

record WorkflowState =
  session_id :: string
  user_id :: "string option"
  user_input :: string
  conversation_history :: "string list"
  intent :: pyvalue
  entities :: pydict
  confidence :: pyfloat
  api_results :: "api_result list option"
  response_message :: json
  ui_elements :: "UIElement list"
  error :: "error option"

text \<open>What a turn can change outside its own state: the database and the calls made.\<close>

record world =
  db :: database
  api_calls :: "api_call list"

text \<open>
  \<^verbatim>\<open>
  async def preprocess_input(self, state):
      cleaned_input = state["user_input"].strip()
      try:
          db = db_manager.get_db()
          history = db_manager.get_conversation_history(db, state["session_id"], limit=10)
          conversation_history = []
          for msg in reversed(history):
              conversation_history.append(f"{msg.message_type}: {msg.content}")
          state["conversation_history"] = conversation_history
          db.close()
      except Exception as e:
          state["conversation_history"] = []
      state["user_input"] = cleaned_input
      return state
  \<close>
\<close>

definition preprocess_input :: "env \<Rightarrow> world \<Rightarrow> WorkflowState \<Rightarrow> WorkflowState" where
  "preprocess_input e w state =
     (let cleaned_input = strip (user_input state) in
      (case get_conversation_history e (db w) (session_id state) (Some 10) of
         Inr history \<Rightarrow>
           state\<lparr>conversation_history :=
                    map (\<lambda>msg. cm_message_type msg @ '': '' @ cm_content msg) (rev history),
                  user_input := cleaned_input\<rparr>
       | Inl err \<Rightarrow>
           state\<lparr>conversation_history := [], user_input := cleaned_input\<rparr>))"

text \<open>
  \<^verbatim>\<open>
  async def extract_intent_and_entities(self, state):
      try:
          extracted = await deepseek_client.extract_intent_and_entities(
              state["user_input"], state["conversation_history"])
          state["intent"] = extracted.intent
          state["entities"] = extracted.entities
          state["confidence"] = extracted.confidence
      except Exception as e:
          ...
      return state
  \<close>
  The client catches every exception itself, so the \<open>except\<close> branch of the node is
  never taken.
\<close>

definition extract_intent_and_entities :: "env \<Rightarrow> WorkflowState \<Rightarrow> WorkflowState" where
  "extract_intent_and_entities e state =
     (let extracted = client_extract_intent_and_entities e (user_input state)
                        (conversation_history state)
      in state\<lparr>intent := Member (ee_intent extracted),
               entities := ee_entities extracted,
               confidence := ee_confidence extracted\<rparr>)"

text \<open>
  \<^verbatim>\<open>
  def route_condition(self, state) -> str:
      intent = state["intent"]
      if intent == IntentType.SEARCH_FLIGHT:
          return "search_flight"
      elif intent == IntentType.SEARCH_HOTEL:
          return "search_hotel"
      elif intent == IntentType.BOOK_TRIP:
          return "book_trip"
      else:
          return "general"
  \<close>
\<close>

definition route_condition :: "WorkflowState \<Rightarrow> string" where
  "route_condition state =
     (if eq_intent (intent state) SEARCH_FLIGHT then ''search_flight''
      else if eq_intent (intent state) SEARCH_HOTEL then ''search_hotel''
      else if eq_intent (intent state) BOOK_TRIP then ''book_trip''
      else ''general'')"

text \<open>\<open>route_request\<close> only logs.\<close>

definition route_request :: "WorkflowState \<Rightarrow> WorkflowState" where
  "route_request state = state"

text \<open>
  The request of the flight branch, as the \<open>try\<close> block builds it:
  \<^verbatim>\<open>
  flight_request = FlightSearchRequest(
      origin=entities.get("origin", ""),
      destination=entities.get("destination", ""),
      departure_date=entities.get("departure_date", ""),
      return_date=entities.get("return_date"),
      passengers=int(entities.get("passengers", 1)),
      class_type=entities.get("class_type", "economy"))
  \<close>
\<close>

definition flight_request :: "env \<Rightarrow> pydict \<Rightarrow> error + FlightSearchRequest" where
  "flight_request e ents =
     (case py_int e (dict_get ents ''passengers'' (JInt 1)) of
        Inl err \<Rightarrow> Inl err
      | Inr n \<Rightarrow>
          new_FlightSearchRequest
            (dict_get ents ''origin'' (JStr []))
            (dict_get ents ''destination'' (JStr []))
            (dict_get ents ''departure_date'' (JStr []))
            (dict_get ents ''return_date'' JNull)
            n
            (dict_get ents ''class_type'' (JStr ''economy'')))"

text \<open>
  \<^verbatim>\<open>
  async def search_flights(self, state):
      try:
          entities = state["entities"]
          flight_request = FlightSearchRequest(...)
          flights = await external_apis.search_flights(flight_request)
          state["api_results"] = [flight.dict() for flight in flights]
      except Exception as e:
          state["error"] = str(e)
          state["api_results"] = []
      return state
  \<close>
\<close>

definition search_flights ::
  "env \<Rightarrow> world \<Rightarrow> WorkflowState \<Rightarrow> WorkflowState \<times> world" where
  "search_flights e w state =
     (case flight_request e (entities state) of
        Inl err \<Rightarrow> (state\<lparr>error := Some err, api_results := Some []\<rparr>, w)
      | Inr request \<Rightarrow>
          (let w' = w\<lparr>api_calls := api_calls w @ [SearchFlights request]\<rparr> in
           (case search_flights_api e request of
              Inl err \<Rightarrow> (state\<lparr>error := Some err, api_results := Some []\<rparr>, w')
            | Inr flights \<Rightarrow> (state\<lparr>api_results := Some (map Flight flights)\<rparr>, w'))))"

text \<open>
  \<^verbatim>\<open>
  hotel_request = HotelSearchRequest(
      location=entities.get("location", ""),
      check_in=entities.get("check_in", ""),
      check_out=entities.get("check_out", ""),
      guests=int(entities.get("guests", 1)),
      rooms=int(entities.get("rooms", 1)))
  \<close>
\<close>

definition hotel_request :: "env \<Rightarrow> pydict \<Rightarrow> error + HotelSearchRequest" where
  "hotel_request e ents =
     (case py_int e (dict_get ents ''guests'' (JInt 1)) of
        Inl err \<Rightarrow> Inl err
      | Inr g \<Rightarrow>
          (case py_int e (dict_get ents ''rooms'' (JInt 1)) of
             Inl err \<Rightarrow> Inl err
           | Inr r \<Rightarrow>
               new_HotelSearchRequest
                 (dict_get ents ''location'' (JStr []))
                 (dict_get ents ''check_in'' (JStr []))
                 (dict_get ents ''check_out'' (JStr []))
                 g r))"

definition search_hotels ::
  "env \<Rightarrow> world \<Rightarrow> WorkflowState \<Rightarrow> WorkflowState \<times> world" where
  "search_hotels e w state =
     (case hotel_request e (entities state) of
        Inl err \<Rightarrow> (state\<lparr>error := Some err, api_results := Some []\<rparr>, w)
      | Inr request \<Rightarrow>
          (let w' = w\<lparr>api_calls := api_calls w @ [SearchHotels request]\<rparr> in
           (case search_hotels_api e request of
              Inl err \<Rightarrow> (state\<lparr>error := Some err, api_results := Some []\<rparr>, w')
            | Inr hotels \<Rightarrow> (state\<lparr>api_results := Some (map Hotel hotels)\<rparr>, w'))))"

text \<open>
  \<^verbatim>\<open>
  async def create_booking(self, state):
      try:
          entities = state["entities"]
          booking_type = entities.get("booking_type", "flight")
          item_id = entities.get("booking_id", "")
          booking = await external_apis.create_booking(booking_type, item_id, entities)
          state["api_results"] = [booking.dict()]
      except Exception as e:
          state["error"] = str(e)
          state["api_results"] = []
      return state
  \<close>
\<close>

definition create_booking ::
  "env \<Rightarrow> world \<Rightarrow> WorkflowState \<Rightarrow> WorkflowState \<times> world" where
  "create_booking e w state =
     (let ents = entities state;
          booking_type = dict_get ents ''booking_type'' (JStr ''flight'');
          item_id = dict_get ents ''booking_id'' (JStr []);
          w' = w\<lparr>api_calls := api_calls w @ [CreateBooking booking_type item_id ents]\<rparr>
      in (case create_booking_api e booking_type item_id ents of
            Inl err \<Rightarrow> (state\<lparr>error := Some err, api_results := Some []\<rparr>, w')
          | Inr booking \<Rightarrow> (state\<lparr>api_results := Some [Booking booking]\<rparr>, w')))"

definition handle_general_inquiry :: "WorkflowState \<Rightarrow> WorkflowState" where
  "handle_general_inquiry state = state\<lparr>api_results := Some []\<rparr>"

definition node_apology :: string where
  "node_apology = ''I apologize, but I'm having trouble processing your request right now.''"

text \<open>
  \<^verbatim>\<open>
  async def generate_response(self, state):
      try:
          response_data = await deepseek_client.generate_response(
              state["user_input"], state["intent"], state["entities"],
              state["api_results"], state["conversation_history"])
          state["response_message"] = response_data["message"]
          state["ui_elements"] = response_data["ui_elements"]
      except Exception as e:
          state["response_message"] = "I apologize, but I'm having trouble processing your request right now."
          state["ui_elements"] = []
          state["error"] = str(e)
      return state
  \<close>
\<close>

definition generate_response :: "env \<Rightarrow> WorkflowState \<Rightarrow> WorkflowState" where
  "generate_response e state =
     (case client_generate_response e (user_input state) (intent state) (entities state)
             (api_results state) (conversation_history state) of
        Inr response_data \<Rightarrow>
          state\<lparr>response_message := fst response_data, ui_elements := snd response_data\<rparr>
      | Inl err \<Rightarrow>
          state\<lparr>response_message := JStr node_apology, ui_elements := [], error := Some err\<rparr>)"

text \<open>\<open>elem.dict()\<close>\<close>

definition ui_dict :: "UIElement \<Rightarrow> json" where
  "ui_dict u =
     JObj [(''type'', JStr (ui_type u)), (''text'', JStr (ui_text u)),
           (''action'', JStr (ui_action u)),
           (''data'', (case ui_data u of None \<Rightarrow> JNull | Some d \<Rightarrow> JObj d))]"

text \<open>
  \<open>state["intent"].value if state["intent"] else None\<close>: a member is a non-empty string
  and has a \<open>value\<close>; a false value gives \<open>None\<close>; any other value has no \<open>value\<close>.
\<close>

definition intent_metadata :: "pyvalue \<Rightarrow> error + json" where
  "intent_metadata v =
     (case v of
        Member i \<Rightarrow> Inr (JStr (intent_value i))
      | Plain x \<Rightarrow> (if truthy x then Inl AttributeError else Inr JNull))"

text \<open>
  \<^verbatim>\<open>
  async def store_conversation(self, state):
      try:
          db = db_manager.get_db()
          user_message = MessageCreate(session_id=state["session_id"], user_id=state["user_id"],
              message_type="user", content=state["user_input"],
              metadata={"intent": state["intent"].value if state["intent"] else None,
                        "entities": state["entities"], "confidence": state["confidence"]})
          db_manager.create_message(db, user_message)
          assistant_message = MessageCreate(session_id=state["session_id"], user_id=state["user_id"],
              message_type="assistant", content=state["response_message"],
              metadata={"ui_elements": [elem.dict() for elem in state["ui_elements"]],
                        "api_results_count": len(state["api_results"]) if state["api_results"] else 0})
          db_manager.create_message(db, assistant_message)
          db_manager.create_or_update_session(db, state["session_id"], state["user_id"])
          db.close()
      except Exception as e:
          state["error"] = str(e)
      return state
  \<close>
  \<open>MessageCreate\<close> declares \<open>content: str\<close>: a \<open>response_message\<close> that is no string
  fails its validation, after the user message has been committed.
\<close>

definition store_conversation ::
  "env \<Rightarrow> world \<Rightarrow> WorkflowState \<Rightarrow> WorkflowState \<times> world" where
  "store_conversation e w state =
     (case intent_metadata (intent state) of
        Inl err \<Rightarrow> (state\<lparr>error := Some err\<rparr>, w)
      | Inr intent_v \<Rightarrow>
          (case create_message e (db w)
                  \<lparr>mc_session_id = session_id state, mc_user_id = user_id state,
                   mc_message_type = ''user'', mc_content = user_input state,
                   mc_metadata = Some [(''intent'', intent_v),
                                       (''entities'', JObj (entities state)),
                                       (''confidence'', JFloat (confidence state))]\<rparr> of
             Inl err \<Rightarrow> (state\<lparr>error := Some err\<rparr>, w)
           | Inr db1 \<Rightarrow>
               (case validate_str (response_message state) of
                  None \<Rightarrow> (state\<lparr>error := Some ValidationError\<rparr>, w\<lparr>db := db1\<rparr>)
                | Some content \<Rightarrow>
                    (case create_message e db1
                            \<lparr>mc_session_id = session_id state, mc_user_id = user_id state,
                             mc_message_type = ''assistant'', mc_content = content,
                             mc_metadata = Some [(''ui_elements'', JArr (map ui_dict (ui_elements state))),
                                                 (''api_results_count'',
                                                  JInt (case api_results state of
                                                          None \<Rightarrow> 0
                                                        | Some rs \<Rightarrow> int (length rs)))]\<rparr> of
                       Inl err \<Rightarrow> (state\<lparr>error := Some err\<rparr>, w\<lparr>db := db1\<rparr>)
                     | Inr db2 \<Rightarrow>
                         (case create_or_update_session e db2 (session_id state) (user_id state) None of
                            Inl err \<Rightarrow> (state\<lparr>error := Some err\<rparr>, w\<lparr>db := db2\<rparr>)
                          | Inr db3 \<Rightarrow> (state, w\<lparr>db := db3\<rparr>))))))"

text \<open>
  The compiled graph: \<open>preprocess_input\<close>, \<open>extract_intent\<close>, \<open>route_request\<close>, the
  branch that \<open>route_condition\<close> names, \<open>generate_response\<close>, \<open>store_conversation\<close>.
\<close>

definition dispatch :: "env \<Rightarrow> world \<Rightarrow> WorkflowState \<Rightarrow> WorkflowState \<times> world" where
  "dispatch e w state =
     (let branch = route_condition state in
      if branch = ''search_flight'' then search_flights e w state
      else if branch = ''search_hotel'' then search_hotels e w state
      else if branch = ''book_trip'' then create_booking e w state
      else (handle_general_inquiry state, w))"

text \<open>The state when the conditional edge is taken.\<close>

definition routed :: "env \<Rightarrow> world \<Rightarrow> WorkflowState \<Rightarrow> WorkflowState" where
  "routed e w state =
     route_request (extract_intent_and_entities e (preprocess_input e w state))"

text \<open>The state and the world when \<open>generate_response\<close> is entered.\<close>

definition dispatched :: "env \<Rightarrow> world \<Rightarrow> WorkflowState \<Rightarrow> WorkflowState \<times> world" where
  "dispatched e w state = dispatch e w (routed e w state)"

definition graph_ainvoke :: "env \<Rightarrow> world \<Rightarrow> WorkflowState \<Rightarrow> WorkflowState \<times> world" where
  "graph_ainvoke e w state =
     (case dispatched e w state of
        (s1, w1) \<Rightarrow> store_conversation e w1 (generate_response e s1))"

text \<open>\<open>WorkflowState(...)\<close> of \<open>run_workflow\<close>.\<close>

definition initial_state :: "string \<Rightarrow> string \<Rightarrow> string option \<Rightarrow> WorkflowState" where
  "initial_state user_input_v session_id_v user_id_v =
     \<lparr>session_id = session_id_v, user_id = user_id_v, user_input = user_input_v,
      conversation_history = [], intent = Plain JNull, entities = [],
      confidence = Finite 0, api_results = None, response_message = JStr [],
      ui_elements = [], error = None\<rparr>"

text \<open>
  \<open>AssistantResponse(intent=...)\<close>, an \<open>Optional[IntentType]\<close> field: a member, \<open>None\<close>,
  or the value of a member.
\<close>

definition validate_opt_intent :: "pyvalue \<Rightarrow> IntentType option option" where
  "validate_opt_intent v =
     (case v of
        Member i \<Rightarrow> Some (Some i)
      | Plain JNull \<Rightarrow> Some None
      | Plain x \<Rightarrow> (case IntentType_of x of Inl err \<Rightarrow> None | Inr i \<Rightarrow> Some (Some i)))"

definition workflow_apology :: string where
  "workflow_apology =
     ''I apologize, but I encountered an error processing your request. Please try again.''"

text \<open>
  \<^verbatim>\<open>
  async def run_workflow(self, user_input, session_id, user_id=None) -> AssistantResponse:
      initial_state = WorkflowState(...)
      try:
          final_state = await self.graph.ainvoke(initial_state)
          response = AssistantResponse(
              message=final_state["response_message"], intent=final_state["intent"],
              entities=final_state["entities"], results=final_state["api_results"],
              ui_elements=final_state["ui_elements"], session_id=session_id)
          return response
      except Exception as e:
          return AssistantResponse(
              message="I apologize, but I encountered an error processing your request. Please try again.",
              session_id=session_id)
  \<close>
\<close>

definition run_workflow ::
  "env \<Rightarrow> world \<Rightarrow> string \<Rightarrow> string \<Rightarrow> string option \<Rightarrow> AssistantResponse \<times> world" where
  "run_workflow e w user_input_v session_id_v user_id_v =
     (case graph_ainvoke e w (initial_state user_input_v session_id_v user_id_v) of
        (final_state, w') \<Rightarrow>
          (case (validate_str (response_message final_state),
                 validate_opt_intent (intent final_state)) of
             (Some m, Some i) \<Rightarrow>
               (\<lparr>ar_message = m, ar_intent = i, ar_entities = Some (entities final_state),
                 ar_results = api_results final_state,
                 ar_ui_elements = Some (ui_elements final_state),
                 ar_session_id = session_id_v\<rparr>, w')
           | _ \<Rightarrow>
               (\<lparr>ar_message = workflow_apology, ar_intent = None, ar_entities = None,
                 ar_results = None, ar_ui_elements = None,
                 ar_session_id = session_id_v\<rparr>, w')))"

section \<open>Scenarios\<close>

text \<open>
  Concrete worlds for the examples below. The completion service answers in the format
  of the chat-completions API: a JSON body whose first choice carries the content.
\<close>

definition json_quote :: "string \<Rightarrow> string" where
  "json_quote s =
     [CHR 0x22] @ concat (map (\<lambda>c. if c = CHR 0x22 then [CHR 0x5C, CHR 0x22] else [c]) s)
       @ [CHR 0x22]"

definition chat_body :: "string \<Rightarrow> string" where
  \<open>chat_body content = ''{"choices":[{"message":{"content":'' @ json_quote content @ ''}}]}''\<close>

definition chat_json :: "string \<Rightarrow> json" where
  "chat_json content =
     JObj [(''choices'', JArr [JObj [(''message'', JObj [(''content'', JStr content)])]])]"

text \<open>Contents a model may send back.\<close>

definition bare_content :: string where
  "bare_content = ''{}''"

definition flight_content :: string where
  \<open>flight_content =
     ''```json {"intent": "search_flight", "confidence": 0.9, "entities": {"origin": "NYC"}} ```''\<close>

definition flight_json :: json where
  "flight_json =
     JObj [(''intent'', JStr ''search_flight''), (''confidence'', JFloat (Finite (9 / 10))),
           (''entities'', JObj [(''origin'', JStr ''NYC'')])]"

definition sure_content :: string where
  \<open>sure_content =
     ''{"intent": "search_hotel", "confidence": 1.5, "entities": {"location": "Rome"}}''\<close>

definition sure_json :: json where
  "sure_json =
     JObj [(''intent'', JStr ''search_hotel''), (''confidence'', JFloat (Finite (3 / 2))),
           (''entities'', JObj [(''location'', JStr ''Rome'')])]"

definition empty_fence_content :: string where
  "empty_fence_content = ''```json ```''"

text \<open>
  \<open>json.loads\<close> on the texts that occur in the scenarios; it rejects every other text
  of the scenarios, the empty text among them.
\<close>

definition loads_table :: "string \<Rightarrow> error + json" where
  "loads_table s =
     (if s = chat_body bare_content then Inr (chat_json bare_content)
      else if s = chat_body flight_content then Inr (chat_json flight_content)
      else if s = chat_body sure_content then Inr (chat_json sure_content)
      else if s = chat_body empty_fence_content then Inr (chat_json empty_fence_content)
      else if s = ''{}'' then Inr (JObj [])
      else if s = extract_json_from_markdown flight_content then Inr flight_json
      else if s = sure_content then Inr sure_json
      else Inl JSONDecodeError)"

text \<open>
  The service answers the extraction with \<open>c1\<close> and the generation with \<open>c2\<close>; the
  search and booking services are down; the database works.
\<close>

definition env_replies :: "string \<Rightarrow> string \<Rightarrow> env" where
  "env_replies c1 c2 =
     \<lparr>http_post = (\<lambda>messages. (case messages of
                                   ExtractRequest _ _ \<Rightarrow> Inr (chat_body c1)
                                 | GenerateRequest _ _ _ _ _ \<Rightarrow> Inr (chat_body c2))),
      json_loads = loads_table,
      int_of_str = (\<lambda>s. if s = ''2'' then Some 2 else None),
      lax_float = (\<lambda>v. None),
      search_flights_api = (\<lambda>request. Inl CollaboratorError),
      search_hotels_api = (\<lambda>request. Inl CollaboratorError),
      create_booking_api = (\<lambda>booking_type item_id details. Inl CollaboratorError),
      db_fails = (\<lambda>op. False)\<rparr>"

text \<open>The completion service is unreachable.\<close>

definition env_down :: env where
  "env_down = (env_replies bare_content bare_content)\<lparr>http_post := (\<lambda>messages. Inl TransportError)\<rparr>"

text \<open>The database refuses the assistant's entry.\<close>

definition env_assistant_rejected :: env where
  "env_assistant_rejected =
     (env_replies bare_content bare_content)
       \<lparr>db_fails := (\<lambda>op. (case op of
                               InsertMessage m \<Rightarrow> mc_message_type m = ''assistant''
                             | _ \<Rightarrow> False))\<rparr>"

definition world0 :: world where
  "world0 = \<lparr>db = \<lparr>conversation_messages = [], conversation_sessions = [], clock = 0\<rparr>,
             api_calls = []\<rparr>"

section \<open>Routing\<close>

lemma eq_intent_cases:
  "eq_intent x M = (x = Member M \<or> x = Plain (JStr (intent_value M)))"
  by (cases "(x, M)" rule: eq_intent.cases) auto

text \<open>
  C6. The routing function is total and deterministic over all values of the intent
  slot: \<open>search_flight\<close> goes to the flight branch, \<open>search_hotel\<close> to the hotel branch,
  \<open>book_trip\<close> to the booking branch, and every other value, \<open>general_inquiry\<close>,
  \<open>greeting\<close>, \<open>None\<close> and any unrecognised value among them, goes to the general
  branch. The three intents are recognised as members of the enumeration and as the
  plain strings that are their values. Routing has no error result.
\<close>

theorem route_condition_total:
  "route_condition (st\<lparr>intent := Member SEARCH_FLIGHT\<rparr>) = ''search_flight''
   \<and> route_condition (st\<lparr>intent := Member SEARCH_HOTEL\<rparr>) = ''search_hotel''
   \<and> route_condition (st\<lparr>intent := Member BOOK_TRIP\<rparr>) = ''book_trip''
   \<and> route_condition (st\<lparr>intent := Member GENERAL_INQUIRY\<rparr>) = ''general''
   \<and> route_condition (st\<lparr>intent := Member GREETING\<rparr>) = ''general''
   \<and> (\<forall>x. x \<notin> {Member SEARCH_FLIGHT, Member SEARCH_HOTEL, Member BOOK_TRIP,
                 Plain (JStr ''search_flight''), Plain (JStr ''search_hotel''),
                 Plain (JStr ''book_trip'')}
          \<longrightarrow> route_condition (st\<lparr>intent := x\<rparr>) = ''general'')
   \<and> (dispatch e w (st\<lparr>intent := Member SEARCH_FLIGHT\<rparr>)
          = search_flights e w (st\<lparr>intent := Member SEARCH_FLIGHT\<rparr>))
   \<and> (dispatch e w (st\<lparr>intent := Member SEARCH_HOTEL\<rparr>)
          = search_hotels e w (st\<lparr>intent := Member SEARCH_HOTEL\<rparr>))
   \<and> (dispatch e w (st\<lparr>intent := Member BOOK_TRIP\<rparr>)
          = create_booking e w (st\<lparr>intent := Member BOOK_TRIP\<rparr>))
   \<and> (\<forall>x. route_condition (st\<lparr>intent := x\<rparr>) = ''general''
          \<longrightarrow> dispatch e w (st\<lparr>intent := x\<rparr>)
              = (handle_general_inquiry (st\<lparr>intent := x\<rparr>), w))"
  by (simp add: route_condition_def dispatch_def eq_intent_cases)

theorem route_condition_total_witness:
  "route_condition (initial_state ''hi'' ''s1'' None\<lparr>intent := Plain (JStr ''weather'')\<rparr>)
     = ''general''
   \<and> dispatch env_down world0
        (initial_state ''hi'' ''s1'' None\<lparr>intent := Plain (JStr ''weather'')\<rparr>)
     = (handle_general_inquiry
          (initial_state ''hi'' ''s1'' None\<lparr>intent := Plain (JStr ''weather'')\<rparr>), world0)"
  using route_condition_total [of "initial_state ''hi'' ''s1'' None" env_down world0]
  by simp

section \<open>What the nodes keep\<close>

lemma intent_extract [simp]:
  "intent (extract_intent_and_entities e st)
     = Member (ee_intent (client_extract_intent_and_entities e (user_input st) (conversation_history st)))"
  by (simp add: extract_intent_and_entities_def Let_def)

lemma intent_search_flights [simp]: "intent (fst (search_flights e w st)) = intent st"
  by (simp add: search_flights_def Let_def split: sum.splits)

lemma intent_search_hotels [simp]: "intent (fst (search_hotels e w st)) = intent st"
  by (simp add: search_hotels_def Let_def split: sum.splits)

lemma intent_create_booking [simp]: "intent (fst (create_booking e w st)) = intent st"
  by (simp add: create_booking_def Let_def split: sum.splits)

lemma intent_dispatch [simp]: "intent (fst (dispatch e w st)) = intent st"
  by (simp add: dispatch_def Let_def handle_general_inquiry_def)

lemma intent_dispatched:
  "\<exists>i. intent (fst (dispatched e w st)) = Member i"
  by (simp add: dispatched_def routed_def route_request_def)

lemma store_conversation_state:
  "fst (store_conversation e w st) = st\<lparr>error := error (fst (store_conversation e w st))\<rparr>"
  by (simp add: store_conversation_def split: sum.splits option.splits)

lemma apologies_nonempty [simp]:
  "client_apology \<noteq> []" "node_apology \<noteq> []" "workflow_apology \<noteq> []"
  by (simp_all add: client_apology_def node_apology_def workflow_apology_def)

lemma validate_str_Some [simp]: "(validate_str v = Some s) = (v = JStr s)"
  by (cases v) (simp_all add: validate_str_def)

lemma validate_str_JStr [simp]: "validate_str (JStr s) = Some s"
  by (simp add: validate_str_def)

lemma validate_str_None: "(validate_str v = None) = (\<forall>s. v \<noteq> JStr s)"
  by (cases v) (simp_all add: validate_str_def)

lemma generate_response_member:
  "intent st = Member i \<Longrightarrow>
   generate_response e st =
     (case generate_try e (generate_messages (user_input st) i (entities st) (api_results st)
                             (conversation_history st)) of
        Inr rd \<Rightarrow> st\<lparr>response_message := fst rd, ui_elements := snd rd\<rparr>
      | Inl err \<Rightarrow> st\<lparr>response_message := JStr client_apology, ui_elements := []\<rparr>)"
  by (simp add: generate_response_def client_generate_response_def split: sum.splits)

lemma validate_opt_intent_Member [simp]: "validate_opt_intent (Member i) = Some (Some i)"
  by (simp add: validate_opt_intent_def)

lemma run_workflow_message_of:
  assumes "dispatched e w (initial_state inp sid uid) = (s1, w1)"
  shows "ar_message (fst (run_workflow e w inp sid uid))
           = (case response_message (generate_response e s1) of
                JStr s \<Rightarrow> s | _ \<Rightarrow> workflow_apology)"
proof -
  obtain i where i: "intent s1 = Member i"
    using intent_dispatched [of e w "initial_state inp sid uid"] assms by auto
  obtain err where st: "fst (store_conversation e w1 (generate_response e s1))
                         = (generate_response e s1)\<lparr>error := err\<rparr>"
    using store_conversation_state [of e w1 "generate_response e s1"] by blast
  have gi: "intent (generate_response e s1) = Member i"
    using i by (simp add: generate_response_member split: sum.splits)
  show ?thesis
    using assms st gi
    by (cases "store_conversation e w1 (generate_response e s1)";
        cases "response_message (generate_response e s1)")
       (auto simp: run_workflow_def graph_ainvoke_def validate_str_def)
qed

lemma generate_try_empty:
  "(\<exists>uis. generate_try e m = Inr (JStr [], uis))
     = (\<exists>d uis. request_parsed e m = Inr (JObj d)
          \<and> map_of d ''message'' \<in> {None, Some (JStr [])}
          \<and> parsed_ui_elements d = Inr uis)"
  by (auto simp: generate_try_def dict_get_def split: sum.splits json.splits option.splits if_splits)

lemma dispatch_frame:
  "fst (dispatch e w st)
     = st\<lparr>api_results := api_results (fst (dispatch e w st)),
          error := error (fst (dispatch e w st))\<rparr>"
  by (simp add: dispatch_def search_flights_def search_hotels_def create_booking_def
        handle_general_inquiry_def Let_def split: sum.splits)

lemma dispatch_db [simp]: "db (snd (dispatch e w st)) = db w"
  by (simp add: dispatch_def search_flights_def search_hotels_def create_booking_def
        Let_def split: sum.splits)

lemma dispatched_db [simp]: "db (snd (dispatched e w st)) = db w"
  by (simp add: dispatched_def)

lemma routed_fields [simp]:
  "session_id (routed e w st) = session_id st"
  "user_id (routed e w st) = user_id st"
  "user_input (routed e w st) = strip (user_input st)"
  "response_message (routed e w st) = response_message st"
  by (simp_all add: routed_def route_request_def extract_intent_and_entities_def
        preprocess_input_def Let_def split: sum.splits)

lemma dispatched_fields [simp]:
  "session_id (fst (dispatched e w st)) = session_id st"
  "user_id (fst (dispatched e w st)) = user_id st"
  "user_input (fst (dispatched e w st)) = strip (user_input st)"
  using arg_cong [OF dispatch_frame [of e w "routed e w st"], of session_id]
        arg_cong [OF dispatch_frame [of e w "routed e w st"], of user_id]
        arg_cong [OF dispatch_frame [of e w "routed e w st"], of user_input]
  by (simp_all add: dispatched_def)

lemma generate_response_frame:
  "generate_response e st
     = st\<lparr>response_message := response_message (generate_response e st),
          ui_elements := ui_elements (generate_response e st),
          error := error (generate_response e st)\<rparr>"
  by (simp add: generate_response_def split: sum.splits)

lemma generate_response_fields [simp]:
  "session_id (generate_response e st) = session_id st"
  "user_id (generate_response e st) = user_id st"
  "user_input (generate_response e st) = user_input st"
  "intent (generate_response e st) = intent st"
  "entities (generate_response e st) = entities st"
  "api_results (generate_response e st) = api_results st"
  using arg_cong [OF generate_response_frame [of e st], of session_id]
        arg_cong [OF generate_response_frame [of e st], of user_id]
        arg_cong [OF generate_response_frame [of e st], of user_input]
        arg_cong [OF generate_response_frame [of e st], of intent]
        arg_cong [OF generate_response_frame [of e st], of entities]
        arg_cong [OF generate_response_frame [of e st], of api_results]
  by simp_all

lemma run_workflow_world:
  "snd (run_workflow e w inp sid uid)
     = snd (store_conversation e (snd (dispatched e w (initial_state inp sid uid)))
              (generate_response e (fst (dispatched e w (initial_state inp sid uid)))))"
  by (simp add: run_workflow_def graph_ainvoke_def split: prod.splits option.splits)


section \<open>What the store step writes\<close>

lemma create_message_Inr:
  "create_message e d m = Inr d' \<Longrightarrow>
     conversation_messages d' = conversation_messages d @
        [\<lparr>cm_id = Suc (length (conversation_messages d)), cm_session_id = mc_session_id m,
          cm_user_id = mc_user_id m, cm_message_type = mc_message_type m,
          cm_content = mc_content m, cm_extra_metadata = mc_metadata m,
          cm_timestamp = clock d\<rparr>]
     \<and> conversation_sessions d' = conversation_sessions d \<and> clock d' = Suc (clock d)"
  by (auto simp: create_message_def split: if_splits)

lemma create_message_healthy:
  "\<not> db_fails e (InsertMessage m) \<Longrightarrow> \<exists>d'. create_message e d m = Inr d'"
  by (simp add: create_message_def)

lemma create_or_update_session_Inr:
  "create_or_update_session e d sid uid c = Inr d' \<Longrightarrow>
     conversation_messages d' = conversation_messages d"
  by (auto simp: create_or_update_session_def split: if_splits option.splits)

lemma store_conversation_log:
  "take (length (conversation_messages (db w)))
        (conversation_messages (db (snd (store_conversation e w st))))
     = conversation_messages (db w)
   \<and> map (\<lambda>m. (cm_message_type m, cm_session_id m))
         (drop (length (conversation_messages (db w)))
            (conversation_messages (db (snd (store_conversation e w st)))))
       \<in> {[], [(''user'', session_id st)],
           [(''user'', session_id st), (''assistant'', session_id st)]}"
  unfolding store_conversation_def
  by (auto split: sum.splits option.splits
        dest!: create_message_Inr create_or_update_session_Inr)

lemma store_conversation_healthy:
  assumes "\<forall>op. \<not> db_fails e op" and "intent st = Member i"
  shows "\<exists>um rest. conversation_messages (db (snd (store_conversation e w st)))
           = conversation_messages (db w) @ um # rest
         \<and> cm_session_id um = session_id st \<and> cm_message_type um = ''user''
         \<and> cm_content um = user_input st"
proof -
  obtain d1 where d1: "create_message e (db w)
      \<lparr>mc_session_id = session_id st, mc_user_id = user_id st,
       mc_message_type = ''user'', mc_content = user_input st,
       mc_metadata = Some [(''intent'', JStr (intent_value i)),
                           (''entities'', JObj (entities st)),
                           (''confidence'', JFloat (confidence st))]\<rparr> = Inr d1"
    using assms(1) create_message_healthy by blast
  note m1 = create_message_Inr [OF d1]
  show ?thesis
    using assms(2) d1 m1
    unfolding store_conversation_def
    by (auto simp: intent_metadata_def split: sum.splits option.splits
          dest!: create_message_Inr create_or_update_session_Inr)
qed

section \<open>The response of a turn\<close>

text \<open>
  C1, as amended. For every input, whatever the collaborators do, \<open>run_workflow\<close> returns
  a response whose \<open>session_id\<close> is the one it was called with. Its \<open>message\<close> is empty
  exactly when the completion of the response-generation step parses to a JSON object
  whose \<open>message\<close> is absent or the empty string and whose \<open>ui_elements\<close> are well
  formed; in every other case the message is non-empty.
\<close>

theorem run_workflow_response:
  "(let r = fst (run_workflow e w inp sid uid);
        s1 = fst (dispatched e w (initial_state inp sid uid))
    in ar_session_id r = sid
       \<and> (ar_message r = [])
           = (\<exists>i d uis. intent s1 = Member i
                \<and> request_parsed e (generate_messages (user_input s1) i (entities s1)
                                       (api_results s1) (conversation_history s1))
                    = Inr (JObj d)
                \<and> map_of d ''message'' \<in> {None, Some (JStr [])}
                \<and> parsed_ui_elements d = Inr uis))"
proof -
  obtain s1 w1 where d: "dispatched e w (initial_state inp sid uid) = (s1, w1)"
    by (cases "dispatched e w (initial_state inp sid uid)")
  obtain i where i: "intent s1 = Member i"
    using intent_dispatched [of e w "initial_state inp sid uid"] d by auto
  let ?m = "generate_messages (user_input s1) i (entities s1) (api_results s1) (conversation_history s1)"
  have sid: "ar_session_id (fst (run_workflow e w inp sid uid)) = sid"
    by (simp add: run_workflow_def split: prod.splits option.splits)
  have "(ar_message (fst (run_workflow e w inp sid uid)) = [])
          = (\<exists>uis. generate_try e ?m = Inr (JStr [], uis))"
    unfolding run_workflow_message_of [OF d] generate_response_member [OF i]
    by (cases "generate_try e ?m") (auto split: json.splits)
  then show ?thesis
    using sid d i by (simp add: generate_try_empty)
qed

theorem run_workflow_response_witness:
  "ar_session_id (fst (run_workflow env_down world0 ''hello'' ''s2'' None)) = ''s2''"
  using run_workflow_response [of env_down world0 "''hello''" "''s2''" None]
  by (simp add: Let_def)

text \<open>
  C1 as stated fails: both completions answer \<open>{}\<close>, the session id is \<open>s1\<close>, and the
  message of the response is empty.
\<close>

theorem run_workflow_empty_message:
  "''s1'' \<noteq> [] \<and>
   ar_message (fst (run_workflow (env_replies bare_content bare_content) world0
                      ''hello'' ''s1'' None)) = []"
  by code_simp

lemma update_first_find:
  "find P xs = Some x \<Longrightarrow> f x \<in> set (update_first P f xs)"
  by (induction xs) (auto split: if_splits)

lemma create_or_update_session_row:
  assumes "create_or_update_session e d sid uid None = Inr d'"
  shows "\<exists>s\<in>set (conversation_sessions d'). cs_session_id s = sid \<and> cs_last_activity s = clock d"
proof (cases "find (\<lambda>s. cs_session_id s = sid) (conversation_sessions d)")
  case None
  then show ?thesis
    using assms by (auto simp: create_or_update_session_def split: if_splits)
next
  case (Some x)
  then have "cs_session_id x = sid" by (auto simp: find_Some_iff)
  moreover have "x\<lparr>cs_last_activity := clock d\<rparr> \<in> set (conversation_sessions d')"
    using assms Some update_first_find [OF Some, of "\<lambda>s. s\<lparr>cs_last_activity := clock d\<rparr>"]
    by (auto simp: create_or_update_session_def split: if_splits)
  ultimately show ?thesis
    by (intro bexI [of _ "x\<lparr>cs_last_activity := clock d\<rparr>"]) simp_all
qed

lemma create_or_update_session_healthy:
  "\<not> db_fails e (UpsertSession sid) \<Longrightarrow> \<exists>d'. create_or_update_session e d sid uid c = Inr d'"
  by (simp add: create_or_update_session_def split: option.splits)

lemma store_conversation_complete:
  assumes "\<forall>op. \<not> db_fails e op" and "intent st = Member i" and "response_message st = JStr c"
  shows "map (\<lambda>m. (cm_message_type m, cm_session_id m))
           (drop (length (conversation_messages (db w)))
              (conversation_messages (db (snd (store_conversation e w st)))))
         = [(''user'', session_id st), (''assistant'', session_id st)]
       \<and> (\<exists>s\<in>set (conversation_sessions (db (snd (store_conversation e w st)))).
             cs_session_id s = session_id st \<and> cs_last_activity s = clock (db w) + 2)"
proof -
  let ?um = "\<lparr>mc_session_id = session_id st, mc_user_id = user_id st,
       mc_message_type = ''user'', mc_content = user_input st,
       mc_metadata = Some [(''intent'', JStr (intent_value i)),
                           (''entities'', JObj (entities st)),
                           (''confidence'', JFloat (confidence st))]\<rparr>"
  let ?am = "\<lparr>mc_session_id = session_id st, mc_user_id = user_id st,
       mc_message_type = ''assistant'', mc_content = c,
       mc_metadata = Some [(''ui_elements'', JArr (map ui_dict (ui_elements st))),
                           (''api_results_count'',
                            JInt (case api_results st of None \<Rightarrow> 0 | Some rs \<Rightarrow> int (length rs)))]\<rparr>"
  obtain d1 where d1: "create_message e (db w) ?um = Inr d1"
    using assms(1) create_message_healthy by blast
  obtain d2 where d2: "create_message e d1 ?am = Inr d2"
    using assms(1) create_message_healthy by blast
  obtain d3 where d3: "create_or_update_session e d2 (session_id st) (user_id st) None = Inr d3"
    using assms(1) create_or_update_session_healthy by blast
  have st: "snd (store_conversation e w st) = w\<lparr>db := d3\<rparr>"
    using assms(2,3) d1 d2 d3 by (simp add: store_conversation_def intent_metadata_def)
  note m1 = create_message_Inr [OF d1] and m2 = create_message_Inr [OF d2]
    and m3 = create_or_update_session_Inr [OF d3] and r3 = create_or_update_session_row [OF d3]
  show ?thesis
    using m1 m2 m3 r3 by (simp add: st)
qed

lemma store_conversation_assistant_rejected:
  assumes "\<forall>m. mc_message_type m = ''user'' \<longrightarrow> \<not> db_fails e (InsertMessage m)"
    and "\<forall>m. mc_message_type m = ''assistant'' \<longrightarrow> db_fails e (InsertMessage m)"
    and "intent st = Member i"
  shows "map (\<lambda>m. (cm_message_type m, cm_session_id m))
           (drop (length (conversation_messages (db w)))
              (conversation_messages (db (snd (store_conversation e w st)))))
         = [(''user'', session_id st)]"
proof -
  let ?um = "\<lparr>mc_session_id = session_id st, mc_user_id = user_id st,
       mc_message_type = ''user'', mc_content = user_input st,
       mc_metadata = Some [(''intent'', JStr (intent_value i)),
                           (''entities'', JObj (entities st)),
                           (''confidence'', JFloat (confidence st))]\<rparr>"
  obtain d1 where d1: "create_message e (db w) ?um = Inr d1"
    using assms(1) create_message_healthy [of e ?um] by auto
  have st: "snd (store_conversation e w st) = w\<lparr>db := d1\<rparr>"
    using assms(2,3) d1
    by (simp add: store_conversation_def intent_metadata_def create_message_def
          split: option.splits)
  show ?thesis
    using create_message_Inr [OF d1] by (simp add: st)
qed

lemma graph_ainvoke_split:
  "graph_ainvoke e w st
     = store_conversation e (snd (dispatched e w st)) (generate_response e (fst (dispatched e w st)))"
  by (simp add: graph_ainvoke_def split: prod.splits)

lemma graph_ainvoke_response_message:
  "response_message (fst (graph_ainvoke e w st))
     = response_message (generate_response e (fst (dispatched e w st)))"
  using arg_cong [OF store_conversation_state
                    [of e "snd (dispatched e w st)" "generate_response e (fst (dispatched e w st))"],
                  of response_message]
  by (simp add: graph_ainvoke_split)

text \<open>
  C3, as amended. The store step commits its three writes one by one. The log after a
  turn is the log before it followed by what the turn appended, so earlier entries are
  never changed, and the turn appends nothing, the user entry alone, or the user entry
  and then the assistant entry, all under the session id of the turn. When no database
  operation fails and the reply message is a string, it appends both entries and the
  session record of the turn is in the session table, stamped by the turn. When the
  database accepts the user entry and refuses the assistant entry, the user entry alone
  stays in the log.
\<close>

theorem turn_log_entries:
  "(let (final, w') = graph_ainvoke e w (initial_state inp sid uid);
        old = conversation_messages (db w);
        new = drop (length old) (conversation_messages (db w'));
        written = map (\<lambda>m. (cm_message_type m, cm_session_id m)) new
    in conversation_messages (db w') = old @ new
       \<and> written \<in> {[], [(''user'', sid)], [(''user'', sid), (''assistant'', sid)]}
       \<and> ((\<forall>op. \<not> db_fails e op) \<and> (\<exists>c. response_message final = JStr c)
            \<longrightarrow> written = [(''user'', sid), (''assistant'', sid)]
                \<and> (\<exists>s\<in>set (conversation_sessions (db w')).
                      cs_session_id s = sid \<and> cs_last_activity s = clock (db w) + 2))
       \<and> ((\<forall>m. mc_message_type m = ''user'' \<longrightarrow> \<not> db_fails e (InsertMessage m))
            \<and> (\<forall>m. mc_message_type m = ''assistant'' \<longrightarrow> db_fails e (InsertMessage m))
            \<longrightarrow> written = [(''user'', sid)]))"
proof -
  let ?s0 = "initial_state inp sid uid"
  let ?s1 = "fst (dispatched e w ?s0)" and ?w1 = "snd (dispatched e w ?s0)"
  let ?g = "generate_response e ?s1"
  obtain i where i: "intent ?g = Member i"
    using intent_dispatched [of e w ?s0] by auto
  have sid: "session_id ?g = sid" by (simp add: initial_state_def)
  have dbw: "db ?w1 = db w" by simp
  note log = store_conversation_log [of ?w1 e ?g, unfolded dbw sid]
  have pre: "conversation_messages (db (snd (store_conversation e ?w1 ?g)))
               = conversation_messages (db w)
                 @ drop (length (conversation_messages (db w)))
                     (conversation_messages (db (snd (store_conversation e ?w1 ?g))))"
    using log by (metis append_take_drop_id)
  have full: "(\<forall>op. \<not> db_fails e op) \<Longrightarrow> response_message ?g = JStr c \<Longrightarrow>
      map (\<lambda>m. (cm_message_type m, cm_session_id m))
           (drop (length (conversation_messages (db w)))
              (conversation_messages (db (snd (store_conversation e ?w1 ?g)))))
         = [(''user'', sid), (''assistant'', sid)]
       \<and> (\<exists>s\<in>set (conversation_sessions (db (snd (store_conversation e ?w1 ?g)))).
             cs_session_id s = sid \<and> cs_last_activity s = clock (db w) + 2)" for c
    using store_conversation_complete [of e ?g i c ?w1, unfolded dbw sid] i by blast
  have part: "(\<forall>m. mc_message_type m = ''user'' \<longrightarrow> \<not> db_fails e (InsertMessage m)) \<Longrightarrow>
      (\<forall>m. mc_message_type m = ''assistant'' \<longrightarrow> db_fails e (InsertMessage m)) \<Longrightarrow>
      map (\<lambda>m. (cm_message_type m, cm_session_id m))
           (drop (length (conversation_messages (db w)))
              (conversation_messages (db (snd (store_conversation e ?w1 ?g)))))
         = [(''user'', sid)]"
    using store_conversation_assistant_rejected [of e ?g i ?w1, unfolded dbw sid] i by blast
  have rm: "response_message (fst (graph_ainvoke e w ?s0)) = response_message ?g"
    by (rule graph_ainvoke_response_message)
  show ?thesis
    unfolding Let_def split_beta rm
    unfolding graph_ainvoke_split
    using pre log full part by blast
qed

theorem turn_log_entries_witness:
  "(\<forall>op. \<not> db_fails (env_replies bare_content bare_content) op)
   \<and> response_message (fst (graph_ainvoke (env_replies bare_content bare_content) world0
                               (initial_state ''hello'' ''s1'' None))) = JStr []
   \<and> map (\<lambda>m. (cm_message_type m, cm_session_id m))
        (conversation_messages (db (snd (graph_ainvoke (env_replies bare_content bare_content)
                                           world0 (initial_state ''hello'' ''s1'' None)))))
       = [(''user'', ''s1''), (''assistant'', ''s1'')]
   \<and> map (\<lambda>m. (cm_message_type m, cm_session_id m))
        (conversation_messages (db (snd (graph_ainvoke env_assistant_rejected
                                           world0 (initial_state ''hello'' ''s3'' None)))))
       = [(''user'', ''s3'')]"
proof -
  have h1: "\<forall>op. \<not> db_fails (env_replies bare_content bare_content) op"
    by (simp add: env_replies_def)
  have h2: "response_message (fst (graph_ainvoke (env_replies bare_content bare_content) world0
                               (initial_state ''hello'' ''s1'' None))) = JStr []"
    by code_simp
  have h3: "\<forall>m. mc_message_type m = ''user'' \<longrightarrow> \<not> db_fails env_assistant_rejected (InsertMessage m)"
    by (simp add: env_assistant_rejected_def)
  have h4: "\<forall>m. mc_message_type m = ''assistant'' \<longrightarrow> db_fails env_assistant_rejected (InsertMessage m)"
    by (simp add: env_assistant_rejected_def)
  show ?thesis
    using h1 h2 h3 h4
      turn_log_entries [of "env_replies bare_content bare_content" world0 "''hello''" "''s1''" None]
      turn_log_entries [of env_assistant_rejected world0 "''hello''" "''s3''" None]
    by (simp add: Let_def split_beta world0_def)
qed

text \<open>
  C3 as stated fails: the database refuses the assistant's entry of a turn of session
  \<open>s3\<close>; the user entry stays in the log alone, and no session record is written.
\<close>

theorem assistant_rejected_leaves_user_entry:
  "map cm_message_type
     (conversation_messages (db (snd (run_workflow env_assistant_rejected world0
                                        ''hello'' ''s3'' None)))) = [''user'']
   \<and> conversation_sessions (db (snd (run_workflow env_assistant_rejected world0
                                        ''hello'' ''s3'' None))) = []"
  by code_simp

section \<open>The empty session id\<close>

text \<open>
  C2, as amended. \<open>run_workflow\<close> does not validate \<open>session_id\<close> and has no error
  result: called with the empty session id it runs the turn as for any other id. The
  response carries the empty session id, and when no database operation fails the store
  step appends the user entry of the turn to the log under the empty session id.
\<close>

theorem run_workflow_empty_session_id:
  assumes "\<forall>op. \<not> db_fails e op"
  shows "ar_session_id (fst (run_workflow e w inp [] uid)) = []
         \<and> (\<exists>um rest. conversation_messages (db (snd (run_workflow e w inp [] uid)))
                         = conversation_messages (db w) @ um # rest
                \<and> cm_session_id um = [] \<and> cm_message_type um = ''user''
                \<and> cm_content um = strip inp)"
proof -
  let ?s0 = "initial_state inp [] uid"
  let ?s1 = "fst (dispatched e w ?s0)" and ?w1 = "snd (dispatched e w ?s0)"
  let ?g = "generate_response e ?s1"
  obtain i where i: "intent ?g = Member i"
    using intent_dispatched [of e w ?s0] by auto
  have f: "session_id ?g = []" "user_input ?g = strip inp" "db ?w1 = db w"
    by (simp_all add: initial_state_def)
  have "ar_session_id (fst (run_workflow e w inp [] uid)) = []"
    by (simp add: run_workflow_def split: prod.splits option.splits)
  then show ?thesis
    using store_conversation_healthy [OF assms i, of ?w1]
    by (simp add: run_workflow_world initial_state_def)
qed

theorem run_workflow_empty_session_id_witness:
  "(\<forall>op. \<not> db_fails env_down op)
   \<and> ar_session_id (fst (run_workflow env_down world0 ''hello'' [] None)) = []
   \<and> (\<exists>um rest. conversation_messages (db (snd (run_workflow env_down world0 ''hello'' [] None)))
                         = um # rest
                \<and> cm_session_id um = [] \<and> cm_message_type um = ''user''
                \<and> cm_content um = ''hello'')"
proof -
  have h: "\<forall>op. \<not> db_fails env_down op"
    by (simp add: env_down_def env_replies_def)
  have s: "strip ''hello'' = ''hello''" by code_simp
  show ?thesis
    using h run_workflow_empty_session_id [OF h, of world0 "''hello''" None]
    by (simp add: world0_def s)
qed

text \<open>
  C2 as stated fails: with the empty session id and a working database the turn returns
  an ordinary response and writes both log entries and the session record.
\<close>

theorem empty_session_id_is_stored:
  "ar_intent (fst (run_workflow (env_replies bare_content bare_content) world0 ''hello'' [] None))
     = Some GENERAL_INQUIRY
   \<and> map (\<lambda>m. (cm_message_type m, cm_session_id m))
        (conversation_messages (db (snd (run_workflow (env_replies bare_content bare_content)
                                           world0 ''hello'' [] None))))
       = [(''user'', []), (''assistant'', [])]
   \<and> map cs_session_id
        (conversation_sessions (db (snd (run_workflow (env_replies bare_content bare_content)
                                           world0 ''hello'' [] None)))) = [[]]"
  by code_simp

section \<open>Failures of the response generation\<close>

text \<open>
  C4, as amended. Called with a member of \<open>IntentType\<close>, the client's
  \<open>generate_response\<close> never raises. For every failure inside its \<open>try\<close> block, that
  is a transport failure, a blank completion, a parse failure, a payload that is no JSON
  object, or a \<open>ui_elements\<close> entry that is no valid element, it returns the fixed
  apology with the empty sequence of UI elements. A parsed object is no failure, with or
  without a \<open>message\<close>: the function returns the object's \<open>message\<close>, the empty string
  when it has none, with the UI elements built from it. The node stores what the client
  returns.
\<close>

theorem generate_response_failures:
  "(let m = generate_messages inp i ents res hist;
        r = client_generate_response e inp (Member i) ents res hist
    in (\<exists>out. r = Inr out)
       \<and> ((\<exists>err. make_request e m = Inl err)
            \<or> (\<exists>resp. make_request e m = Inr resp
                  \<and> (blank resp
                       \<or> (\<exists>err. json_loads e (extract_json_from_markdown resp) = Inl err)))
            \<or> (\<exists>p. request_parsed e m = Inr p \<and> (\<forall>d. p \<noteq> JObj d))
            \<or> (\<exists>d err. request_parsed e m = Inr (JObj d) \<and> parsed_ui_elements d = Inl err)
           \<longrightarrow> r = Inr (JStr client_apology, []))
       \<and> (\<forall>d uis. request_parsed e m = Inr (JObj d) \<and> parsed_ui_elements d = Inr uis
             \<longrightarrow> r = Inr (dict_get d ''message'' (JStr []), uis))
       \<and> (\<forall>st. intent st = Member i \<and> user_input st = inp \<and> entities st = ents
                \<and> api_results st = res \<and> conversation_history st = hist
             \<longrightarrow> r = Inr (response_message (generate_response e st),
                          ui_elements (generate_response e st))))"
proof -
  let ?m = "generate_messages inp i ents res hist"
  let ?r = "client_generate_response e inp (Member i) ents res hist"
  have total: "\<exists>out. ?r = Inr out"
    by (simp add: client_generate_response_def split: sum.splits)
  have fail: "generate_try e ?m = Inl err \<Longrightarrow> ?r = Inr (JStr client_apology, [])" for err
    by (simp add: client_generate_response_def)
  have f1: "make_request e ?m = Inl err \<Longrightarrow> \<exists>err'. generate_try e ?m = Inl err'" for err
    by (simp add: generate_try_def request_parsed_def)
  have f2: "make_request e ?m = Inr resp \<Longrightarrow> blank resp \<Longrightarrow> \<exists>err'. generate_try e ?m = Inl err'"
    for resp
    by (simp add: generate_try_def request_parsed_def)
  have f3: "make_request e ?m = Inr resp \<Longrightarrow> json_loads e (extract_json_from_markdown resp) = Inl err
              \<Longrightarrow> \<exists>err'. generate_try e ?m = Inl err'" for resp err
    by (simp add: generate_try_def request_parsed_def)
  have f4: "request_parsed e ?m = Inr p \<Longrightarrow> \<forall>d. p \<noteq> JObj d \<Longrightarrow> \<exists>err'. generate_try e ?m = Inl err'"
    for p
    by (cases p) (simp_all add: generate_try_def)
  have f5: "request_parsed e ?m = Inr (JObj d) \<Longrightarrow> parsed_ui_elements d = Inl err
              \<Longrightarrow> \<exists>err'. generate_try e ?m = Inl err'" for d err
    by (simp add: generate_try_def)
  have ok: "request_parsed e ?m = Inr (JObj d) \<Longrightarrow> parsed_ui_elements d = Inr uis
              \<Longrightarrow> ?r = Inr (dict_get d ''message'' (JStr []), uis)" for d uis
    by (simp add: client_generate_response_def generate_try_def)
  have node: "intent st = Member i \<Longrightarrow> user_input st = inp \<Longrightarrow> entities st = ents
                \<Longrightarrow> api_results st = res \<Longrightarrow> conversation_history st = hist
                \<Longrightarrow> ?r = Inr (response_message (generate_response e st),
                             ui_elements (generate_response e st))" for st
    using total by (auto simp: generate_response_def)
  show ?thesis
    unfolding Let_def
    using total fail f1 f2 f3 f4 f5 ok node by blast
qed

theorem generate_response_failures_witness:
  "make_request env_down (generate_messages ''hello'' GREETING [] (Some []) []) = Inl TransportError
   \<and> client_generate_response env_down ''hello'' (Member GREETING) [] (Some []) []
       = Inr (JStr client_apology, [])"
proof -
  have h: "make_request env_down (generate_messages ''hello'' GREETING [] (Some []) [])
             = Inl TransportError"
    by (simp add: make_request_def env_down_def)
  show ?thesis
    using h generate_response_failures [of "''hello''" GREETING "[]" "Some []" "[]" env_down]
    by (simp add: Let_def)
qed

text \<open>
  C4 as stated fails: the completion is the object \<open>{}\<close>, which has no \<open>message\<close>; the
  client returns the empty message, not the apology.
\<close>

theorem generate_response_missing_message:
  "request_parsed (env_replies bare_content bare_content)
     (generate_messages ''hello'' GENERAL_INQUIRY [] (Some []) []) = Inr (JObj [])
   \<and> client_generate_response (env_replies bare_content bare_content) ''hello''
       (Member GENERAL_INQUIRY) [] (Some []) [] = Inr (JStr [], [])
   \<and> client_apology \<noteq> []"
  by code_simp

section \<open>Failures of the extraction\<close>


lemma graph_ainvoke_fields:
  "intent (fst (graph_ainvoke e w st)) = intent (routed e w st)"
  "entities (fst (graph_ainvoke e w st)) = entities (routed e w st)"
  "confidence (fst (graph_ainvoke e w st)) = confidence (routed e w st)"
  "api_results (fst (graph_ainvoke e w st)) = api_results (fst (dispatched e w st))"
proof -
  let ?d = "fst (dispatched e w st)" and ?w1 = "snd (dispatched e w st)"
  let ?g = "generate_response e ?d"
  note s = store_conversation_state [of e ?w1 ?g]
  note g = generate_response_frame [of e ?d]
  note d = dispatch_frame [of e w "routed e w st", folded dispatched_def]
  have "intent (fst (graph_ainvoke e w st)) = intent ?g"
    using arg_cong [OF s, of intent] by (simp add: graph_ainvoke_split)
  also have "\<dots> = intent ?d" using arg_cong [OF g, of intent] by simp
  also have "\<dots> = intent (routed e w st)" using arg_cong [OF d, of intent] by simp
  finally show "intent (fst (graph_ainvoke e w st)) = intent (routed e w st)" .
  have "entities (fst (graph_ainvoke e w st)) = entities ?g"
    using arg_cong [OF s, of entities] by (simp add: graph_ainvoke_split)
  also have "\<dots> = entities ?d" using arg_cong [OF g, of entities] by simp
  also have "\<dots> = entities (routed e w st)" using arg_cong [OF d, of entities] by simp
  finally show "entities (fst (graph_ainvoke e w st)) = entities (routed e w st)" .
  have "confidence (fst (graph_ainvoke e w st)) = confidence ?g"
    using arg_cong [OF s, of confidence] by (simp add: graph_ainvoke_split)
  also have "\<dots> = confidence ?d" using arg_cong [OF g, of confidence] by simp
  also have "\<dots> = confidence (routed e w st)" using arg_cong [OF d, of confidence] by simp
  finally show "confidence (fst (graph_ainvoke e w st)) = confidence (routed e w st)" .
  have "api_results (fst (graph_ainvoke e w st)) = api_results ?g"
    using arg_cong [OF s, of api_results] by (simp add: graph_ainvoke_split)
  also have "\<dots> = api_results ?d" using arg_cong [OF g, of api_results] by simp
  finally show "api_results (fst (graph_ainvoke e w st)) = api_results (fst (dispatched e w st))" .
qed






section \<open>Validation of the extracted values\<close>

lemma in_unit_interval:
  "(float_le (Finite 0) f \<and> float_le f (Finite 1)) = (\<exists>q. f = Finite q \<and> 0 \<le> q \<and> q \<le> 1)"
  by (cases f) simp_all

text \<open>
  C10. When the completion parses to a JSON object whose \<open>confidence\<close> is read as a float
  that is no number between 0 and 1, the extractor drops the parsed intent and entities
  and returns the whole fallback \<open>general_inquiry\<close>, \<open>0.5\<close>, \<open>{}\<close>: building the
  \<open>ExtractedEntities\<close> validates the confidence against the range, and the failed
  validation is caught like every other exception.
\<close>

theorem confidence_out_of_range_fallback:
  assumes "request_parsed e (extract_messages inp hist) = Inr (JObj d)"
    and "map_of d ''confidence'' = Some c"
    and "validate_float e c = Some f"
    and "\<not> (\<exists>q. f = Finite q \<and> 0 \<le> q \<and> q \<le> 1)"
  shows "client_extract_intent_and_entities e inp hist
           = \<lparr>ee_intent = GENERAL_INQUIRY, ee_confidence = Finite (1 / 2), ee_entities = []\<rparr>"
proof -
  have "\<not> (float_le (Finite 0) f \<and> float_le f (Finite 1))"
    using assms(4) in_unit_interval [of f] by blast
  then have bad: "new_ExtractedEntities e i c ents = Inl ValidationError" for i ents
    using assms(3) by (auto simp: new_ExtractedEntities_def split: option.splits)
  have "\<exists>err. extract_try e (extract_messages inp hist) = Inl err"
    using assms(1,2) bad
    by (simp add: extract_try_def dict_get_def split: option.splits sum.splits)
  then show ?thesis
    by (auto simp: client_extract_intent_and_entities_def fallback_entities_def)
qed

theorem confidence_out_of_range_fallback_witness:
  "request_parsed (env_replies sure_content bare_content) (extract_messages ''a hotel in Rome'' [])
     = Inr sure_json
   \<and> map_of [(''intent'', JStr ''search_hotel''), (''confidence'', JFloat (Finite (3 / 2))),
              (''entities'', JObj [(''location'', JStr ''Rome'')])] ''confidence''
       = Some (JFloat (Finite (3 / 2)))
   \<and> client_extract_intent_and_entities (env_replies sure_content bare_content)
        ''a hotel in Rome'' []
       = \<lparr>ee_intent = GENERAL_INQUIRY, ee_confidence = Finite (1 / 2), ee_entities = []\<rparr>"
proof -
  have h1: "request_parsed (env_replies sure_content bare_content)
              (extract_messages ''a hotel in Rome'' [])
            = Inr (JObj [(''intent'', JStr ''search_hotel''),
                         (''confidence'', JFloat (Finite (3 / 2))),
                         (''entities'', JObj [(''location'', JStr ''Rome'')])])"
    by code_simp
  have h2: "map_of [(''intent'', JStr ''search_hotel''), (''confidence'', JFloat (Finite (3 / 2))),
              (''entities'', JObj [(''location'', JStr ''Rome'')])] ''confidence''
              = Some (JFloat (Finite (3 / 2)))"
    by simp
  have h3: "validate_float (env_replies sure_content bare_content) (JFloat (Finite (3 / 2)))
              = Some (Finite (3 / 2))"
    by (simp add: validate_float_def)
  have h4: "\<not> (\<exists>q. Finite (3 / 2) = Finite q \<and> 0 \<le> q \<and> q \<le> 1)"
    by simp
  show ?thesis
    using h1 h2 confidence_out_of_range_fallback [OF h1 h2 h3 h4]
    by (simp add: sure_json_def)
qed

text \<open>
  C9, as amended. The counts go through \<open>int()\<close> before they are validated, so the
  bounds are tested on the integer that \<open>int()\<close> returns. When \<open>int()\<close> raises on the
  \<open>passengers\<close> value of the entity map, or the integer it returns lies outside 1 to 9,
  the flight branch builds no request: the collaborator is not invoked and the world is
  left as it was, the result list is empty and the error is recorded. The same holds for
  the hotel branch when \<open>int()\<close> raises on \<open>guests\<close> or returns an integer outside 1 to
  10, or raises on \<open>rooms\<close> or returns an integer outside 1 to 5. The default of 1 is
  used for an absent key only.
\<close>

theorem invalid_count_no_call:
  "(\<forall>v. map_of (entities st) ''passengers'' = Some v
          \<and> ((\<exists>err. py_int e v = Inl err) \<or> (\<exists>n. py_int e v = Inr n \<and> (n < 1 \<or> 9 < n)))
        \<longrightarrow> (\<exists>err. flight_request e (entities st) = Inl err)
            \<and> snd (search_flights e w st) = w
            \<and> api_results (fst (search_flights e w st)) = Some []
            \<and> error (fst (search_flights e w st)) \<noteq> None)
   \<and> (\<forall>v. (map_of (entities st) ''guests'' = Some v
           \<and> ((\<exists>err. py_int e v = Inl err) \<or> (\<exists>n. py_int e v = Inr n \<and> (n < 1 \<or> 10 < n))))
          \<or> (map_of (entities st) ''rooms'' = Some v
           \<and> ((\<exists>err. py_int e v = Inl err) \<or> (\<exists>n. py_int e v = Inr n \<and> (n < 1 \<or> 5 < n))))
        \<longrightarrow> (\<exists>err. hotel_request e (entities st) = Inl err)
            \<and> snd (search_hotels e w st) = w
            \<and> api_results (fst (search_hotels e w st)) = Some []
            \<and> error (fst (search_hotels e w st)) \<noteq> None)"
proof -
  have rf: "\<not> (1 \<le> n \<and> n \<le> 9) \<Longrightarrow> \<exists>err. new_FlightSearchRequest a b c d n f = Inl err"
    for a b c d n f
    by (cases "validate_str a"; cases "validate_str b"; cases "validate_str c";
        cases "validate_opt_str d"; cases "validate_str f")
       (simp_all add: new_FlightSearchRequest_def)
  have rh: "\<not> (1 \<le> g \<and> g \<le> 10 \<and> 1 \<le> r \<and> r \<le> 5)
              \<Longrightarrow> \<exists>err. new_HotelSearchRequest a b c g r = Inl err" for a b c g r
    by (cases "validate_str a"; cases "validate_str b"; cases "validate_str c")
       (simp_all add: new_HotelSearchRequest_def)
  have fl: "\<exists>err. flight_request e (entities st) = Inl err"
    if "map_of (entities st) ''passengers'' = Some v"
      and "(\<exists>err. py_int e v = Inl err) \<or> (\<exists>n. py_int e v = Inr n \<and> (n < 1 \<or> 9 < n))" for v
  proof (cases "py_int e v")
    case (Inl err)
    then show ?thesis using that(1) by (simp add: flight_request_def dict_get_def)
  next
    case (Inr n)
    then have "\<not> (1 \<le> n \<and> n \<le> 9)" using that(2) by auto
    from rf [OF this] show ?thesis using that(1) Inr
      by (simp add: flight_request_def dict_get_def)
  qed
  have ho1: "\<exists>err. hotel_request e (entities st) = Inl err"
    if "map_of (entities st) ''guests'' = Some v"
      and "(\<exists>err. py_int e v = Inl err) \<or> (\<exists>n. py_int e v = Inr n \<and> (n < 1 \<or> 10 < n))" for v
  proof (cases "py_int e v")
    case (Inl err)
    then show ?thesis using that(1) by (simp add: hotel_request_def dict_get_def)
  next
    case (Inr n)
    then have "\<not> (1 \<le> n \<and> n \<le> 10 \<and> 1 \<le> r \<and> r \<le> 5)" for r :: int using that(2) by auto
    from rh [OF this] show ?thesis using that(1) Inr
      by (simp add: hotel_request_def dict_get_def split: sum.splits)
  qed
  have ho2: "\<exists>err. hotel_request e (entities st) = Inl err"
    if "map_of (entities st) ''rooms'' = Some v"
      and "(\<exists>err. py_int e v = Inl err) \<or> (\<exists>n. py_int e v = Inr n \<and> (n < 1 \<or> 5 < n))" for v
  proof (cases "py_int e v")
    case (Inl err)
    then show ?thesis using that(1) by (simp add: hotel_request_def dict_get_def split: sum.splits)
  next
    case (Inr n)
    then have "\<not> (1 \<le> g \<and> g \<le> 10 \<and> 1 \<le> n \<and> n \<le> 5)" for g :: int using that(2) by auto
    from rh [OF this] show ?thesis using that(1) Inr
      by (simp add: hotel_request_def dict_get_def split: sum.splits)
  qed
  have sf: "flight_request e (entities st) = Inl err \<Longrightarrow>
      snd (search_flights e w st) = w \<and> api_results (fst (search_flights e w st)) = Some []
      \<and> error (fst (search_flights e w st)) \<noteq> None" for err
    by (simp add: search_flights_def)
  have sh: "hotel_request e (entities st) = Inl err \<Longrightarrow>
      snd (search_hotels e w st) = w \<and> api_results (fst (search_hotels e w st)) = Some []
      \<and> error (fst (search_hotels e w st)) \<noteq> None" for err
    by (simp add: search_hotels_def)
  show ?thesis
    using fl ho1 ho2 sf sh by blast
qed

theorem invalid_count_no_call_witness:
  "py_int env_down (JInt 10) = Inr 10
   \<and> snd (search_flights env_down world0
            (initial_state ''ten seats'' ''s1'' None\<lparr>entities := [(''passengers'', JInt 10)]\<rparr>))
       = world0
   \<and> api_results (fst (search_flights env_down world0
            (initial_state ''ten seats'' ''s1'' None\<lparr>entities := [(''passengers'', JInt 10)]\<rparr>)))
       = Some []
   \<and> py_int env_down (JStr ''two'') = Inl ValueError
   \<and> snd (search_hotels env_down world0
            (initial_state ''two rooms'' ''s1'' None\<lparr>entities := [(''rooms'', JStr ''two'')]\<rparr>))
       = world0"
proof -
  have h1: "py_int env_down (JInt 10) = Inr 10" by (simp add: py_int_def)
  have h2: "py_int env_down (JStr ''two'') = Inl ValueError"
    by (simp add: py_int_def env_down_def env_replies_def)
  show ?thesis
    using h1 h2
      invalid_count_no_call [of "initial_state ''ten seats'' ''s1'' None\<lparr>entities := [(''passengers'', JInt 10)]\<rparr>"
                                env_down world0]
      invalid_count_no_call [of "initial_state ''two rooms'' ''s1'' None\<lparr>entities := [(''rooms'', JStr ''two'')]\<rparr>"
                                env_down world0]
    by (simp add: initial_state_def)
qed

text \<open>
  C9 as stated fails: \<open>passengers\<close> 9.5 is no integer and lies outside 1 to 9, yet
  \<open>int()\<close> makes it 9 and the flight service is called for 9 passengers; \<open>guests\<close> 2.5
  and \<open>rooms\<close> 5.5 are no integers, yet the hotel service is called for 2 guests and 5
  rooms.
\<close>

theorem fractional_count_is_truncated:
  "\<not> (19 / 2 :: rat) \<le> 9
   \<and> api_calls (snd (search_flights env_down world0
        (initial_state ''nine and a half seats'' ''s1'' None
           \<lparr>entities := [(''passengers'', JFloat (Finite (19 / 2)))]\<rparr>)))
       = [SearchFlights \<lparr>origin = [], destination = [], departure_date = [],
                         return_date = None, passengers = 9, class_type = ''economy''\<rparr>]
   \<and> \<not> (11 / 2 :: rat) \<le> 5
   \<and> api_calls (snd (search_hotels env_down world0
        (initial_state ''a few rooms'' ''s1'' None
           \<lparr>entities := [(''guests'', JFloat (Finite (5 / 2))),
                          (''rooms'', JFloat (Finite (11 / 2)))]\<rparr>)))
       = [SearchHotels \<lparr>location = [], check_in = [], check_out = [],
                        guests = 2, rooms = 5\<rparr>]"
  by code_simp

section \<open>The requests of the dispatch branches\<close>




lemma py_int_JInt [simp]: "py_int e (JInt n) = Inr n"
  by (simp add: py_int_def)









section \<open>Failures of the search and booking services\<close>

lemma generate_response_client:
  "intent st = Member i \<Longrightarrow>
   client_generate_response e (user_input st) (intent st) (entities st) (api_results st)
       (conversation_history st)
     = Inr (response_message (generate_response e st), ui_elements (generate_response e st))"
  by (simp add: generate_response_def client_generate_response_def split: sum.splits)

lemma search_flights_failure:
  "flight_request e (entities st) = Inr rq \<Longrightarrow> search_flights_api e rq = Inl err \<Longrightarrow>
   search_flights e w st
     = (st\<lparr>error := Some err, api_results := Some []\<rparr>,
        w\<lparr>api_calls := api_calls w @ [SearchFlights rq]\<rparr>)"
  by (simp add: search_flights_def Let_def)

lemma search_hotels_failure:
  "hotel_request e (entities st) = Inr rq \<Longrightarrow> search_hotels_api e rq = Inl err \<Longrightarrow>
   search_hotels e w st
     = (st\<lparr>error := Some err, api_results := Some []\<rparr>,
        w\<lparr>api_calls := api_calls w @ [SearchHotels rq]\<rparr>)"
  by (simp add: search_hotels_def Let_def)

lemma create_booking_failure:
  "create_booking_api e (dict_get (entities st) ''booking_type'' (JStr ''flight''))
      (dict_get (entities st) ''booking_id'' (JStr [])) (entities st) = Inl err \<Longrightarrow>
   create_booking e w st
     = (st\<lparr>error := Some err, api_results := Some []\<rparr>,
        w\<lparr>api_calls := api_calls w @
             [CreateBooking (dict_get (entities st) ''booking_type'' (JStr ''flight''))
                (dict_get (entities st) ''booking_id'' (JStr [])) (entities st)]\<rparr>)"
  by (simp add: create_booking_def Let_def)

lemma dispatch_branches:
  "route_condition st = ''search_flight'' \<Longrightarrow> dispatch e w st = search_flights e w st"
  "route_condition st = ''search_hotel'' \<Longrightarrow> dispatch e w st = search_hotels e w st"
  "route_condition st = ''book_trip'' \<Longrightarrow> dispatch e w st = create_booking e w st"
  by (simp_all add: dispatch_def)

text \<open>
  C7, as amended. When the collaborator that the dispatch branch invokes fails, the
  branch catches the failure: the result list of the turn state is empty and the error is
  recorded on it, after the one call. The turn is not aborted: the response generation
  runs on the empty result list, the state the turn ends with carries the empty result
  list and the message and UI elements that the generation returned, and \<open>run_workflow\<close>
  returns a response for the session whose message is that message (the fixed apology of
  the orchestration when it is no string). The message is whatever the generation
  returned; it can be empty.
\<close>

theorem collaborator_failure_absorbed:
  "(let st = routed e w (initial_state inp sid uid);
        s1 = fst (dispatched e w (initial_state inp sid uid));
        w1 = snd (dispatched e w (initial_state inp sid uid));
        final = fst (graph_ainvoke e w (initial_state inp sid uid));
        r = fst (run_workflow e w inp sid uid)
    in ((route_condition st = ''search_flight''
          \<and> (\<exists>rq. flight_request e (entities st) = Inr rq \<and> search_flights_api e rq = Inl err))
        \<or> (route_condition st = ''search_hotel''
          \<and> (\<exists>rq. hotel_request e (entities st) = Inr rq \<and> search_hotels_api e rq = Inl err))
        \<or> (route_condition st = ''book_trip''
          \<and> create_booking_api e (dict_get (entities st) ''booking_type'' (JStr ''flight''))
               (dict_get (entities st) ''booking_id'' (JStr [])) (entities st) = Inl err))
       \<longrightarrow> api_results s1 = Some [] \<and> error s1 = Some err
           \<and> length (api_calls w1) = Suc (length (api_calls w))
           \<and> api_results final = Some []
           \<and> client_generate_response e (user_input s1) (intent s1) (entities s1) (Some [])
                 (conversation_history s1)
               = Inr (response_message final, ui_elements final)
           \<and> ar_message r = (case response_message final of JStr s \<Rightarrow> s | _ \<Rightarrow> workflow_apology)
           \<and> ar_session_id r = sid)"
proof -
  let ?s0 = "initial_state inp sid uid"
  let ?st = "routed e w ?s0"
  let ?s1 = "fst (dispatched e w ?s0)" and ?w1 = "snd (dispatched e w ?s0)"
  let ?final = "fst (graph_ainvoke e w ?s0)"
  let ?g = "generate_response e ?s1"
  obtain i where i: "intent ?s1 = Member i"
    using intent_dispatched [of e w ?s0] by auto
  have rm: "response_message ?final = response_message ?g"
    by (rule graph_ainvoke_response_message)
  have ui: "ui_elements ?final = ui_elements ?g"
    using arg_cong [OF store_conversation_state [of e ?w1 ?g], of ui_elements]
    by (simp add: graph_ainvoke_split)
  have msg: "ar_message (fst (run_workflow e w inp sid uid))
               = (case response_message ?final of JStr s \<Rightarrow> s | _ \<Rightarrow> workflow_apology)"
    using run_workflow_message_of [of e w inp sid uid ?s1 ?w1] by (simp add: rm)
  have sid: "ar_session_id (fst (run_workflow e w inp sid uid)) = sid"
    by (simp add: run_workflow_def split: prod.splits option.splits)
  have fin: "api_results ?final = api_results ?s1"
    by (simp add: graph_ainvoke_fields)
  have gen: "api_results ?s1 = Some [] \<Longrightarrow>
      client_generate_response e (user_input ?s1) (intent ?s1) (entities ?s1) (Some [])
                 (conversation_history ?s1)
               = Inr (response_message ?final, ui_elements ?final)"
    using generate_response_client [OF i, of e] by (simp add: rm ui)
  have d: "dispatched e w ?s0 = (st', w') \<Longrightarrow> ?s1 = st' \<and> ?w1 = w'" for st' w'
    by simp
  have b1: "route_condition ?st = ''search_flight'' \<Longrightarrow> flight_request e (entities ?st) = Inr rq
              \<Longrightarrow> search_flights_api e rq = Inl err
              \<Longrightarrow> api_results ?s1 = Some [] \<and> error ?s1 = Some err
                  \<and> length (api_calls ?w1) = Suc (length (api_calls w))" for rq
    by (simp add: dispatched_def dispatch_branches search_flights_failure)
  have b2: "route_condition ?st = ''search_hotel'' \<Longrightarrow> hotel_request e (entities ?st) = Inr rq
              \<Longrightarrow> search_hotels_api e rq = Inl err
              \<Longrightarrow> api_results ?s1 = Some [] \<and> error ?s1 = Some err
                  \<and> length (api_calls ?w1) = Suc (length (api_calls w))" for rq
    by (simp add: dispatched_def dispatch_branches search_hotels_failure)
  have b3: "route_condition ?st = ''book_trip''
              \<Longrightarrow> create_booking_api e (dict_get (entities ?st) ''booking_type'' (JStr ''flight''))
               (dict_get (entities ?st) ''booking_id'' (JStr [])) (entities ?st) = Inl err
              \<Longrightarrow> api_results ?s1 = Some [] \<and> error ?s1 = Some err
                  \<and> length (api_calls ?w1) = Suc (length (api_calls w))"
    by (simp add: dispatched_def dispatch_branches create_booking_failure)
  show ?thesis
    unfolding Let_def
    using b1 b2 b3 gen fin msg sid by (metis (no_types, lifting))
qed

theorem collaborator_failure_absorbed_witness:
  "route_condition (routed (env_replies flight_content bare_content) world0
                      (initial_state ''a flight from NYC'' ''s1'' None)) = ''search_flight''
   \<and> flight_request (env_replies flight_content bare_content) [(''origin'', JStr ''NYC'')]
       = Inr \<lparr>origin = ''NYC'', destination = [], departure_date = [], return_date = None,
              passengers = 1, class_type = ''economy''\<rparr>
   \<and> search_flights_api (env_replies flight_content bare_content)
        \<lparr>origin = ''NYC'', destination = [], departure_date = [], return_date = None,
         passengers = 1, class_type = ''economy''\<rparr> = Inl CollaboratorError
   \<and> api_results (fst (graph_ainvoke (env_replies flight_content bare_content) world0
                          (initial_state ''a flight from NYC'' ''s1'' None))) = Some []
   \<and> error (fst (dispatched (env_replies flight_content bare_content) world0
                          (initial_state ''a flight from NYC'' ''s1'' None)))
       = Some CollaboratorError"
proof -
  let ?e = "env_replies flight_content bare_content"
  let ?s0 = "initial_state ''a flight from NYC'' ''s1'' None"
  have h1: "route_condition (routed ?e world0 ?s0) = ''search_flight''"
    by code_simp
  have h2: "entities (routed ?e world0 ?s0) = [(''origin'', JStr ''NYC'')]"
    by code_simp
  have h3: "flight_request ?e [(''origin'', JStr ''NYC'')]
       = Inr \<lparr>origin = ''NYC'', destination = [], departure_date = [], return_date = None,
              passengers = 1, class_type = ''economy''\<rparr>"
    by code_simp
  have h4: "search_flights_api ?e
        \<lparr>origin = ''NYC'', destination = [], departure_date = [], return_date = None,
         passengers = 1, class_type = ''economy''\<rparr> = Inl CollaboratorError"
    by (simp add: env_replies_def)
  show ?thesis
    using h1 h2 h3 h4
      collaborator_failure_absorbed [of ?e world0 "''a flight from NYC''" "''s1''" None
                                        CollaboratorError]
    by (simp add: Let_def)
qed


text \<open>
  C7 as stated fails: the extraction finds a flight search, the flight service is called
  and fails, the generation answers \<open>{}\<close>, and the message of the response is empty.
\<close>

theorem collaborator_failure_empty_message:
  "api_calls (snd (run_workflow (env_replies flight_content bare_content) world0
                     ''a flight from NYC'' ''s1'' None))
     = [SearchFlights \<lparr>origin = ''NYC'', destination = [], departure_date = [],
                       return_date = None, passengers = 1, class_type = ''economy''\<rparr>]
   \<and> search_flights_api (env_replies flight_content bare_content)
        \<lparr>origin = ''NYC'', destination = [], departure_date = [], return_date = None,
         passengers = 1, class_type = ''economy''\<rparr> = Inl CollaboratorError
   \<and> ar_results (fst (run_workflow (env_replies flight_content bare_content) world0
                        ''a flight from NYC'' ''s1'' None)) = Some []
   \<and> ar_message (fst (run_workflow (env_replies flight_content bare_content) world0
                        ''a flight from NYC'' ''s1'' None)) = []"
  by code_simp

end
